theory Spec2Isabelle
  imports Complex_Main
begin

section \<open>JavaScript numbers\<close>

text \<open>
  The aggregator computes with JavaScript numbers. Finite values are modelled exactly, as
  rationals; the special values that a division by zero or an out-of-range array read can
  produce are kept as constructors of their own, so that a result of \<open>NaN\<close> is visible in
  the model instead of being an unspecified rational.
\<close>

datatype jsnum = Num rat | NaN | Infinity | NegInfinity | Undefined

text \<open>\<open>a / b\<close> on two finite numbers.\<close>

definition js_div :: "rat \<Rightarrow> rat \<Rightarrow> jsnum" where
  "js_div a b =
     (if b = 0 then (if a = 0 then NaN else if 0 < a then Infinity else NegInfinity)
      else Num (a / b))"

text \<open>\<open>x * c\<close> for a finite constant \<open>c\<close>.\<close>

fun js_times :: "jsnum \<Rightarrow> rat \<Rightarrow> jsnum" where
  "js_times (Num a) c = Num (a * c)"
| "js_times Infinity c = (if c = 0 then NaN else if 0 < c then Infinity else NegInfinity)"
| "js_times NegInfinity c = (if c = 0 then NaN else if 0 < c then NegInfinity else Infinity)"
| "js_times NaN c = NaN"
| "js_times Undefined c = NaN"

text \<open>\<open>x || 0\<close>: zero, \<open>NaN\<close> and \<open>undefined\<close> are falsy.\<close>

fun or_zero :: "jsnum \<Rightarrow> jsnum" where
  "or_zero (Num a) = Num a"
| "or_zero Infinity = Infinity"
| "or_zero NegInfinity = NegInfinity"
| "or_zero NaN = Num 0"
| "or_zero Undefined = Num 0"

text \<open>\<open>values[i]\<close>: a read outside the array gives \<open>undefined\<close>.\<close>

definition js_index :: "int list \<Rightarrow> int \<Rightarrow> jsnum" where
  "js_index values i =
     (if 0 \<le> i \<and> i < int (length values) then Num (of_int (values ! nat i)) else Undefined)"

text \<open>\<open>x + y\<close> and \<open>x / 2\<close> on array reads: anything but two finite numbers is \<open>NaN\<close> here
  (the operands are finite numbers or \<open>undefined\<close>).\<close>

fun js_plus :: "jsnum \<Rightarrow> jsnum \<Rightarrow> jsnum" where
  "js_plus (Num a) (Num b) = Num (a + b)"
| "js_plus x y = NaN"

fun js_half :: "jsnum \<Rightarrow> jsnum" where
  "js_half (Num a) = Num (a / 2)"
| "js_half x = NaN"

section \<open>Errors\<close>

datatype error =
    InvalidPeriod string
  | StoreUnavailable

section \<open>Period calculator\<close>

text \<open>
  Instants are JavaScript time values: milliseconds since the Unix epoch. \<open>moment(date)\<close>
  works in the local time of the process, which it reads and sets through the \<open>Date\<close>
  object. The zone of the process is a parameter of the model: the offset from UTC, in
  milliseconds, that is in force before the first change, and the changes of the offset
  (such as daylight saving time), each with the instant from which the new offset is in
  force, in ascending order. Instants are unbounded integers: the range of a \<open>Date\<close>,
  8.64 * 10^15 milliseconds on either side of the epoch, is not modelled.
\<close>

definition MS_PER_DAY :: int where "MS_PER_DAY = 86400000"

record zone =
  baseOffset :: int
  changes :: "(int \<times> int) list"

text \<open>The offset in force at an instant, and \<open>LocalTime(t)\<close> of ECMAScript, through which
  the getters of a \<open>Date\<close> read an instant.\<close>

fun offsetFrom :: "int \<Rightarrow> (int \<times> int) list \<Rightarrow> int \<Rightarrow> int" where
  "offsetFrom off [] t = off"
| "offsetFrom off ((since, off') # rest) t = (if t < since then off else offsetFrom off' rest t)"

definition localTime :: "zone \<Rightarrow> int \<Rightarrow> int" where
  "localTime z t = t + offsetFrom (baseOffset z) (changes z) t"

text \<open>\<open>UTC(t)\<close> of ECMAScript, which the \<open>Date\<close> constructor applies to a local time. A
  local time that a change of the offset repeats or skips is read with the offset before
  the change.\<close>

fun utcFrom :: "int \<Rightarrow> (int \<times> int) list \<Rightarrow> int \<Rightarrow> int" where
  "utcFrom off [] wall = wall - off"
| "utcFrom off ((since, off') # rest) wall =
     (if wall - off < since \<or> wall - off' < since then wall - off else utcFrom off' rest wall)"

definition utcOfLocal :: "zone \<Rightarrow> int \<Rightarrow> int" where
  "utcOfLocal z wall = utcFrom (baseOffset z) (changes z) wall"

text \<open>
  The calendar of \<open>moment\<close> and of \<open>Date\<close> is the proleptic Gregorian one. Days are
  counted from 1970-01-01, months from 0 (January) to 11.
\<close>

definition leapYear :: "int \<Rightarrow> bool" where
  "leapYear y = (if y mod 400 = 0 then True else if y mod 100 = 0 then False else y mod 4 = 0)"

text \<open>The number of leap years from year 0 up to, and without, year \<open>y\<close>; the day on which
  year \<open>y\<close> starts; and the number of days of a year that lie before its month \<open>m\<close>.\<close>

definition leapsBefore :: "int \<Rightarrow> int" where
  "leapsBefore y = (y + 3) div 4 - (y + 99) div 100 + (y + 399) div 400"

definition daysBeforeYear :: "int \<Rightarrow> int" where
  "daysBeforeYear y = 365 * (y - 1970) + leapsBefore y - 478"

definition daysBeforeMonth :: "bool \<Rightarrow> int \<Rightarrow> int" where
  "daysBeforeMonth leap m =
     (if m \<le> 0 then 0
      else if m = 1 then 31
      else (if leap then 1 else 0) +
        (if m = 2 then 59 else if m = 3 then 90 else if m = 4 then 120 else if m = 5 then 151
         else if m = 6 then 181 else if m = 7 then 212 else if m = 8 then 243
         else if m = 9 then 273 else if m = 10 then 304 else if m = 11 then 334 else 365))"

text \<open>The year a day lies in: an estimate from the mean length of a year, corrected by one
  where the estimate is off. The month a day of the year lies in.\<close>

definition yearOfDay :: "int \<Rightarrow> int" where
  "yearOfDay z =
     (let c = 1970 + (400 * z) div 146097
      in if z < daysBeforeYear c then c - 1
         else if daysBeforeYear (c + 1) \<le> z then c + 1
         else c)"

definition monthOfDay :: "bool \<Rightarrow> int \<Rightarrow> int" where
  "monthOfDay leap doy =
     (if doy < daysBeforeMonth leap 1 then 0 else if doy < daysBeforeMonth leap 2 then 1
      else if doy < daysBeforeMonth leap 3 then 2 else if doy < daysBeforeMonth leap 4 then 3
      else if doy < daysBeforeMonth leap 5 then 4 else if doy < daysBeforeMonth leap 6 then 5
      else if doy < daysBeforeMonth leap 7 then 6 else if doy < daysBeforeMonth leap 8 then 7
      else if doy < daysBeforeMonth leap 9 then 8 else if doy < daysBeforeMonth leap 10 then 9
      else if doy < daysBeforeMonth leap 11 then 10 else 11)"

text \<open>The day on which month \<open>m\<close> of year \<open>y\<close> starts; a month outside 0 to 11 overflows
  into the neighbouring years, as in the \<open>Date\<close> constructor.\<close>

definition monthStartDay :: "int \<Rightarrow> int \<Rightarrow> int" where
  "monthStartDay y m =
     daysBeforeYear (y + m div 12) + daysBeforeMonth (leapYear (y + m div 12)) (m mod 12)"

text \<open>The accessors of a \<open>moment\<close>: \<open>year()\<close>, \<open>month()\<close> (0 to 11), \<open>date()\<close> (the day of the
  month, from 1) and \<open>weekday()\<close> (0 is Sunday in the default locale; 1970-01-01 was a
  Thursday).\<close>

definition year :: "zone \<Rightarrow> int \<Rightarrow> int" where
  "year z t = yearOfDay (localTime z t div MS_PER_DAY)"

definition month :: "zone \<Rightarrow> int \<Rightarrow> int" where
  "month z t =
     monthOfDay (leapYear (year z t)) (localTime z t div MS_PER_DAY - daysBeforeYear (year z t))"

definition dateOfMonth :: "zone \<Rightarrow> int \<Rightarrow> int" where
  "dateOfMonth z t = localTime z t div MS_PER_DAY - monthStartDay (year z t) (month z t) + 1"

definition weekday :: "zone \<Rightarrow> int \<Rightarrow> int" where
  "weekday z t = (localTime z t div MS_PER_DAY + 4) mod 7"

text \<open>The local time value of midnight of a civil date, as the \<open>Date\<close> constructor computes
  it from a year, a month and a day of the month: a day out of range overflows into the
  neighbouring months.\<close>

definition dateValue :: "int \<Rightarrow> int \<Rightarrow> int \<Rightarrow> int" where
  "dateValue y m d = (monthStartDay y m + (d - 1)) * MS_PER_DAY"

text \<open>\<open>localStartOfDate(y, m, d)\<close> of \<open>moment\<close>: the instant \<open>new Date(y, m, d)\<close>. The
  constructor remaps the years 0 to 99, so for them \<open>moment\<close> constructs the date 400 years
  later and subtracts the length of 400 years.\<close>

definition MS_PER_400_YEARS :: int where "MS_PER_400_YEARS = 146097 * MS_PER_DAY"

definition startOfDate :: "zone \<Rightarrow> int \<Rightarrow> int \<Rightarrow> int \<Rightarrow> int" where
  "startOfDate z y m d =
     (if y < 100 \<and> 0 \<le> y then utcOfLocal z (dateValue (y + 400) m d) - MS_PER_400_YEARS
      else utcOfLocal z (dateValue y m d))"

text \<open>\<open>startOf(unit)\<close> and \<open>endOf(unit)\<close>: the first millisecond of the day, week, month,
  quarter or year around an instant, and the millisecond before the first one of the next
  day, week, month, quarter or year.\<close>

datatype unit_of_time = Day | Week | Month | Quarter | Year

fun startOf :: "zone \<Rightarrow> unit_of_time \<Rightarrow> int \<Rightarrow> int" where
  "startOf z Year t = startOfDate z (year z t) 0 1"
| "startOf z Quarter t = startOfDate z (year z t) (month z t - month z t mod 3) 1"
| "startOf z Month t = startOfDate z (year z t) (month z t) 1"
| "startOf z Week t = startOfDate z (year z t) (month z t) (dateOfMonth z t - weekday z t)"
| "startOf z Day t = startOfDate z (year z t) (month z t) (dateOfMonth z t)"

fun endOf :: "zone \<Rightarrow> unit_of_time \<Rightarrow> int \<Rightarrow> int" where
  "endOf z Year t = startOfDate z (year z t + 1) 0 1 - 1"
| "endOf z Quarter t = startOfDate z (year z t) (month z t - month z t mod 3 + 3) 1 - 1"
| "endOf z Month t = startOfDate z (year z t) (month z t + 1) 1 - 1"
| "endOf z Week t = startOfDate z (year z t) (month z t) (dateOfMonth z t - weekday z t + 7) - 1"
| "endOf z Day t = startOfDate z (year z t) (month z t) (dateOfMonth z t + 1) - 1"

record period_dates =
  startDate :: int
  endDate :: int

text \<open>\<open>DataAggregator._calculatePeriodDates(period, date)\<close>. \<open>now\<close> is what \<open>new Date()\<close>
  reads in the \<open>all_time\<close> case.\<close>

definition calculatePeriodDates :: "zone \<Rightarrow> int \<Rightarrow> string \<Rightarrow> int \<Rightarrow> error + period_dates" where
  "calculatePeriodDates z now period date =
     (if period = ''daily'' then
        Inr \<lparr>startDate = startOf z Day date, endDate = endOf z Day date\<rparr>
      else if period = ''weekly'' then
        Inr \<lparr>startDate = startOf z Week date, endDate = endOf z Week date\<rparr>
      else if period = ''monthly'' then
        Inr \<lparr>startDate = startOf z Month date, endDate = endOf z Month date\<rparr>
      else if period = ''quarterly'' then
        Inr \<lparr>startDate = startOf z Quarter date, endDate = endOf z Quarter date\<rparr>
      else if period = ''yearly'' then
        Inr \<lparr>startDate = startOf z Year date, endDate = endOf z Year date\<rparr>
      else if period = ''all_time'' then
        Inr \<lparr>startDate = 0, endDate = now\<rparr>
      else Inl (InvalidPeriod period))"

section \<open>Raw events and the event store reader\<close>

text \<open>
  An \<open>AnalyticsEvent\<close> document, with the fields of the free-form \<open>eventData\<close> payload
  that the aggregation pipelines read. The keys the pipelines group by are optional (a
  missing field groups under \<open>null\<close>); the numeric fields are taken as present on the events
  that carry them.
\<close>

record event_data =
  priority :: "string option"
  categoryId :: "string option"
  ed_createdAt :: int
  score :: int
  escalationLevel :: "int option"
  commentType :: "string option"
  role :: "string option"
  sessionDuration :: int
  channel :: "string option"
  ed_status :: "string option"

record event =
  sourceService :: string
  eventType :: string
  ev_eventData :: event_data
  userId :: "string option"
  ev_companyId :: "string option"
  timestamp :: int

text \<open>The \<open>matchCriteria\<close> object: source service, \<open>$gte startDate\<close>, \<open>$lt endDate\<close>, and the
  company when one is given.\<close>

definition matchCriteria :: "string \<Rightarrow> period_dates \<Rightarrow> string option \<Rightarrow> event \<Rightarrow> bool" where
  "matchCriteria service w companyId e =
     (sourceService e = service \<and> startDate w \<le> timestamp e \<and> timestamp e < endDate w \<and>
      (case companyId of None \<Rightarrow> True | Some c \<Rightarrow> ev_companyId e = Some c))"

definition ofType :: "string list \<Rightarrow> event list \<Rightarrow> event list" where
  "ofType types es = filter (\<lambda>e. eventType e \<in> set types) es"

text \<open>A document emitted by \<open>{ $group: { _id: key, count: { $sum: 1 } } }\<close>: one for each
  key that occurs, with the number of its events. The stage emits \<open>_id\<close> and \<open>count\<close> and
  nothing else, so the \<open>eventData\<close> that the status loop reads on such a document is
  always absent. The database leaves the order of the groups open; the model lists them
  in the order \<open>remdups\<close> gives.\<close>

record 'k group_doc =
  gid :: 'k
  count :: nat
  g_eventData :: "event_data option"

definition groupCount :: "('e \<Rightarrow> 'k) \<Rightarrow> 'e list \<Rightarrow> 'k group_doc list" where
  "groupCount key es =
     map (\<lambda>k. \<lparr>gid = k, count = length (filter (\<lambda>e. key e = k) es), g_eventData = None\<rparr>)
       (remdups (map key es))"

text \<open>The \<open>$project\<close>/\<open>$group\<close> pair of the response-time and resolution-time pipelines:
  one document with \<open>_id: null\<close> when at least one event matched, none otherwise. Its
  \<open>values\<close> array, built by \<open>$push\<close>, holds one sample for each matched event.\<close>

record time_group =
  g_average :: jsnum
  g_min :: jsnum
  g_max :: jsnum
  g_values :: "int list"

definition groupTimes :: "int list \<Rightarrow> time_group list" where
  "groupTimes samples =
     (if samples = [] then []
      else [\<lparr>g_average = js_div (of_int (sum_list samples)) (of_nat (length samples)),
             g_min = Num (of_int (Min (set samples))),
             g_max = Num (of_int (Max (set samples))),
             g_values = samples\<rparr>])"

definition timeSamples :: "event list \<Rightarrow> int list" where
  "timeSamples es = map (\<lambda>e. timestamp e - ed_createdAt (ev_eventData e)) es"

record satisfaction_group =
  s_average :: jsnum
  s_count :: nat
  s_scores :: "int list"

definition groupSatisfaction :: "event list \<Rightarrow> satisfaction_group list" where
  "groupSatisfaction es =
     (if es = [] then []
      else [\<lparr>s_average = js_div (of_int (sum_list (map (\<lambda>e. score (ev_eventData e)) es)))
                                (of_nat (length es)),
             s_count = length es,
             s_scores = map (\<lambda>e. score (ev_eventData e)) es\<rparr>])"

text \<open>The two-stage login pipeline: per user, then over all users.\<close>

record login_group =
  uniqueUsers :: nat
  totalLogins :: nat
  sessionDurations :: "int list list"

definition groupLogins :: "event list \<Rightarrow> login_group list" where
  "groupLogins es =
     (if es = [] then []
      else [\<lparr>uniqueUsers = length (remdups (map userId es)),
             totalLogins = length es,
             sessionDurations =
               map (\<lambda>u. map (\<lambda>e. sessionDuration (ev_eventData e)) (filter (\<lambda>e. userId e = u) es))
                 (remdups (map userId es))\<rparr>])"

text \<open>The two-stage engagement pipeline: per (user, event type), then per event type.\<close>

record engagement_doc =
  en_id :: string
  en_uniqueUsers :: nat
  en_totalCount :: nat

definition groupEngagement :: "event list \<Rightarrow> engagement_doc list" where
  "groupEngagement es =
     map (\<lambda>t. \<lparr>en_id = t,
               en_uniqueUsers = length (remdups (map userId (filter (\<lambda>e. eventType e = t) es))),
               en_totalCount = length (filter (\<lambda>e. eventType e = t) es)\<rparr>)
       (remdups (map eventType es))"

section \<open>Metric assemblers: feedback\<close>

record feedback_counts =
  total :: nat
  new :: nat
  inProgress :: nat
  resolved :: nat
  closed :: nat

record by_priority =
  low :: nat
  medium :: nat
  high :: nat
  critical :: nat

record time_metrics =
  average :: jsnum
  median :: jsnum
  min_time :: jsnum
  max_time :: jsnum
  percentile95 :: jsnum

record distribution =
  star1 :: nat
  star2 :: nat
  star3 :: nat
  star4 :: nat
  star5 :: nat

record satisfaction =
  sat_average :: jsnum
  sat_count :: nat
  sat_distribution :: distribution

record by_level =
  level1 :: nat
  level2 :: nat
  level3 :: nat

record escalations =
  esc_count :: nat
  percentage :: jsnum
  byLevel :: by_level

record comments =
  com_total :: nat
  com_average :: jsnum
  internal :: nat
  external :: nat

record feedback_metrics =
  counts :: feedback_counts
  byPriority :: by_priority
  byCategory :: "string \<rightharpoonup> nat"
  responseTimes :: time_metrics
  resolutionTimes :: time_metrics
  satisfaction :: satisfaction
  escalations :: escalations
  comments :: comments

text \<open>The body of \<open>statusCounts.forEach\<close>.\<close>

definition statusStep :: "string group_doc \<Rightarrow> feedback_counts \<Rightarrow> feedback_counts" where
  "statusStep item c =
     (if gid item = ''feedback.created'' then c\<lparr>total := count item, new := count item\<rparr>
      else if gid item = ''feedback.updated'' \<and>
              (case g_eventData item of None \<Rightarrow> None | Some d \<Rightarrow> ed_status d) = Some ''in_progress''
        then c\<lparr>inProgress := count item\<rparr>
      else if gid item = ''feedback.resolved'' then c\<lparr>resolved := count item\<rparr>
      else if gid item = ''feedback.closed'' then c\<lparr>closed := count item\<rparr>
      else c)"

text \<open>The body of \<open>priorityCounts.forEach\<close>: \<open>item._id\<close> must be truthy and an own key of
  \<open>byPriority\<close>.\<close>

definition priorityStep :: "string option group_doc \<Rightarrow> by_priority \<Rightarrow> by_priority" where
  "priorityStep item b =
     (case gid item of
        None \<Rightarrow> b
      | Some k \<Rightarrow>
          if k = ''low'' then b\<lparr>low := count item\<rparr>
          else if k = ''medium'' then b\<lparr>medium := count item\<rparr>
          else if k = ''high'' then b\<lparr>high := count item\<rparr>
          else if k = ''critical'' then b\<lparr>critical := count item\<rparr>
          else b)"

text \<open>The body of \<open>categoryCounts.forEach\<close>: a truthy \<open>item._id\<close> becomes a key of the
  plain object \<open>byCategory\<close>. Assigning a number to its \<open>__proto__\<close> sets no key.\<close>

definition categoryStep :: "string option group_doc \<Rightarrow> (string \<rightharpoonup> nat) \<Rightarrow> (string \<rightharpoonup> nat)" where
  "categoryStep item m =
     (case gid item of
        None \<Rightarrow> m
      | Some k \<Rightarrow> if k = [] \<or> k = ''__proto__'' then m else m(k \<mapsto> count item))"

text \<open>The response-time block and the resolution-time block, which are the same code on two
  inputs. The guard of the block tests that there is a group and that its \<open>values\<close> is
  truthy, which an array always is, also when empty. \<open>Math.ceil(values.length * 0.95)\<close> is
  taken exactly: the double nearest to 0.95 lies below it, and for array lengths the
  rounded product has the ceiling of the exact one.\<close>

definition zeroTimes :: time_metrics where
  "zeroTimes = \<lparr>average = Num 0, median = Num 0, min_time = Num 0, max_time = Num 0,
                percentile95 = Num 0\<rparr>"

definition processTimes :: "time_group list \<Rightarrow> time_metrics" where
  "processTimes groups =
     (case groups of
        [] \<Rightarrow> zeroTimes
      | g # _ \<Rightarrow>
          (let values = sort (g_values g);
               mid = int (length values) div 2;
               p95Index = \<lceil>rat_of_nat (length values) * (95 / 100)\<rceil> - 1
           in \<lparr>average = or_zero (g_average g),
               median = (if length values mod 2 = 0
                         then js_half (js_plus (js_index values (mid - 1)) (js_index values mid))
                         else js_index values mid),
               min_time = or_zero (g_min g),
               max_time = or_zero (g_max g),
               percentile95 = or_zero (js_index values p95Index)\<rparr>))"

definition scoreStep :: "int \<Rightarrow> distribution \<Rightarrow> distribution" where
  "scoreStep s d =
     (if s = 1 then d\<lparr>star1 := star1 d + 1\<rparr>
      else if s = 2 then d\<lparr>star2 := star2 d + 1\<rparr>
      else if s = 3 then d\<lparr>star3 := star3 d + 1\<rparr>
      else if s = 4 then d\<lparr>star4 := star4 d + 1\<rparr>
      else if s = 5 then d\<lparr>star5 := star5 d + 1\<rparr>
      else d)"

definition processSatisfaction :: "satisfaction_group list \<Rightarrow> satisfaction" where
  "processSatisfaction groups =
     (case groups of
        [] \<Rightarrow> \<lparr>sat_average = Num 0, sat_count = 0,
               sat_distribution = \<lparr>star1 = 0, star2 = 0, star3 = 0, star4 = 0, star5 = 0\<rparr>\<rparr>
      | g # _ \<Rightarrow>
          \<lparr>sat_average = or_zero (s_average g), sat_count = s_count g,
           sat_distribution =
             fold scoreStep (s_scores g) \<lparr>star1 = 0, star2 = 0, star3 = 0, star4 = 0, star5 = 0\<rparr>\<rparr>)"

definition escalationStep :: "int option group_doc \<Rightarrow> escalations \<Rightarrow> escalations" where
  "escalationStep item e =
     (let e1 = e\<lparr>esc_count := esc_count e + count item\<rparr>
      in case gid item of
           None \<Rightarrow> e1
         | Some l \<Rightarrow>
             if l = 1 then e1\<lparr>byLevel := (byLevel e1)\<lparr>level1 := count item\<rparr>\<rparr>
             else if l = 2 then e1\<lparr>byLevel := (byLevel e1)\<lparr>level2 := count item\<rparr>\<rparr>
             else if l = 3 then e1\<lparr>byLevel := (byLevel e1)\<lparr>level3 := count item\<rparr>\<rparr>
             else e1)"

definition commentStep :: "string option group_doc \<Rightarrow> comments \<Rightarrow> comments" where
  "commentStep item c =
     (let c1 = c\<lparr>com_total := com_total c + count item\<rparr>
      in if gid item = Some ''internal'' then c1\<lparr>internal := count item\<rparr>
         else if gid item = Some ''external'' then c1\<lparr>external := count item\<rparr>
         else c1)"

text \<open>\<open>DataAggregator._processFeedbackMetrics\<close>.\<close>

definition processFeedbackMetrics ::
  "string group_doc list \<Rightarrow> string option group_doc list \<Rightarrow> string option group_doc list \<Rightarrow>
   time_group list \<Rightarrow> time_group list \<Rightarrow> satisfaction_group list \<Rightarrow>
   int option group_doc list \<Rightarrow> string option group_doc list \<Rightarrow> feedback_metrics" where
  "processFeedbackMetrics statusCounts priorityCounts categoryCounts responseTimeGroups
     resolutionTimeGroups satisfactionScores escalationData commentData =
     (let counts0 = fold statusStep statusCounts
            \<lparr>total = 0, new = 0, inProgress = 0, resolved = 0, closed = 0\<rparr>;
          byPriority0 = fold priorityStep priorityCounts
            \<lparr>low = 0, medium = 0, high = 0, critical = 0\<rparr>;
          byCategory0 = fold categoryStep categoryCounts Map.empty;
          escalations0 = fold escalationStep escalationData
            \<lparr>esc_count = 0, percentage = Num 0,
             byLevel = \<lparr>level1 = 0, level2 = 0, level3 = 0\<rparr>\<rparr>;
          escalations1 =
            (if 0 < total counts0
             then escalations0\<lparr>percentage :=
                    js_times (js_div (of_nat (esc_count escalations0)) (of_nat (total counts0))) 100\<rparr>
             else escalations0);
          comments0 = fold commentStep commentData
            \<lparr>com_total = 0, com_average = Num 0, internal = 0, external = 0\<rparr>;
          comments1 =
            (if 0 < total counts0
             then comments0\<lparr>com_average :=
                    js_div (of_nat (com_total comments0)) (of_nat (total counts0))\<rparr>
             else comments0)
      in \<lparr>counts = counts0,
          byPriority = byPriority0,
          byCategory = byCategory0,
          responseTimes = processTimes responseTimeGroups,
          resolutionTimes = processTimes resolutionTimeGroups,
          satisfaction = processSatisfaction satisfactionScores,
          escalations = escalations1,
          comments = comments1\<rparr>)"

section \<open>Metric assemblers: users\<close>

record user_counts =
  u_total :: nat
  active :: nat
  u_new :: nat

record by_role =
  admin :: nat
  manager :: nat
  agent :: nat
  customer :: nat

record activity =
  averageLogins :: jsnum
  averageSessionDuration :: jsnum
  totalSessions :: nat
  act_totalLogins :: nat

record engagement =
  averageFeedbackSubmissions :: jsnum
  averageComments :: jsnum
  averageResponses :: jsnum
  averageResolutionTime :: jsnum

record performance =
  averageFeedbackHandled :: jsnum
  averageResolutionRate :: jsnum
  averageSatisfactionScore :: jsnum
  averageResponseTime :: jsnum

record by_channel =
  email_sent :: nat
  email_delivered :: nat
  email_opened :: nat
  sms_sent :: nat
  sms_delivered :: nat
  push_sent :: nat
  push_delivered :: nat
  push_opened :: nat
  inApp_sent :: nat
  inApp_read :: nat

record notifications =
  sent :: nat
  read :: nat
  readRate :: jsnum
  byChannel :: by_channel

record user_metrics =
  um_counts :: user_counts
  byRole :: by_role
  activity :: activity
  engagement :: engagement
  performance :: performance
  notifications :: notifications

definition userCountStep :: "string group_doc \<Rightarrow> user_counts \<Rightarrow> user_counts" where
  "userCountStep item c =
     (if gid item = ''user.created'' then c\<lparr>u_new := count item\<rparr>
      else if gid item = ''user.active'' then c\<lparr>active := count item\<rparr>
      else c)"

definition roleStep :: "string option group_doc \<Rightarrow> by_role \<Rightarrow> by_role" where
  "roleStep item b =
     (case gid item of
        None \<Rightarrow> b
      | Some k \<Rightarrow>
          if k = ''admin'' then b\<lparr>admin := count item\<rparr>
          else if k = ''manager'' then b\<lparr>manager := count item\<rparr>
          else if k = ''agent'' then b\<lparr>agent := count item\<rparr>
          else if k = ''customer'' then b\<lparr>customer := count item\<rparr>
          else b)"

definition processActivity :: "login_group list \<Rightarrow> activity" where
  "processActivity loginActivity =
     (case loginActivity of
        [] \<Rightarrow> \<lparr>averageLogins = Num 0, averageSessionDuration = Num 0, totalSessions = 0,
               act_totalLogins = 0\<rparr>
      | d # _ \<Rightarrow>
          \<lparr>averageLogins =
             (if 0 < uniqueUsers d then js_div (of_nat (totalLogins d)) (of_nat (uniqueUsers d))
              else Num 0),
           averageSessionDuration =
             (if 0 < length (sessionDurations d)
              then js_div (of_int (sum_list (concat (sessionDurations d))))
                          (of_nat (length (concat (sessionDurations d))))
              else Num 0),
           totalSessions = uniqueUsers d,
           act_totalLogins = totalLogins d\<rparr>)"

definition engagementStep :: "engagement_doc \<Rightarrow> engagement \<Rightarrow> engagement" where
  "engagementStep item e =
     (if en_id item = ''feedback.created'' \<and> 0 < en_uniqueUsers item
        then e\<lparr>averageFeedbackSubmissions :=
                 js_div (of_nat (en_totalCount item)) (of_nat (en_uniqueUsers item))\<rparr>
      else if en_id item = ''feedback.commented'' \<and> 0 < en_uniqueUsers item
        then e\<lparr>averageComments :=
                 js_div (of_nat (en_totalCount item)) (of_nat (en_uniqueUsers item))\<rparr>
      else if en_id item = ''feedback.responded'' \<and> 0 < en_uniqueUsers item
        then e\<lparr>averageResponses :=
                 js_div (of_nat (en_totalCount item)) (of_nat (en_uniqueUsers item))\<rparr>
      else e)"

text \<open>The body of \<open>notificationMetrics.forEach\<close>. \<open>notifications.byChannel[channel]\<close> is
  an entry of the document for the four channel names only; any other name leaves the
  document as it is.\<close>

definition notificationStep ::
  "(string \<times> string option) group_doc \<Rightarrow> notifications \<Rightarrow> notifications" where
  "notificationStep item n =
     (let eventType = fst (gid item); channel = snd (gid item); b = byChannel n
      in if eventType = ''notification.sent'' then
           (let n1 = n\<lparr>sent := sent n + count item\<rparr>
            in if channel = Some ''email'' then n1\<lparr>byChannel := b\<lparr>email_sent := count item\<rparr>\<rparr>
               else if channel = Some ''sms'' then n1\<lparr>byChannel := b\<lparr>sms_sent := count item\<rparr>\<rparr>
               else if channel = Some ''push'' then n1\<lparr>byChannel := b\<lparr>push_sent := count item\<rparr>\<rparr>
               else if channel = Some ''inApp'' then n1\<lparr>byChannel := b\<lparr>inApp_sent := count item\<rparr>\<rparr>
               else n1)
         else if eventType = ''notification.read'' then
           (let n1 = n\<lparr>read := read n + count item\<rparr>
            in if channel = Some ''inApp'' then n1\<lparr>byChannel := b\<lparr>inApp_read := count item\<rparr>\<rparr>
               else n1)
         else if eventType = ''notification.delivered'' then
           (if channel = Some ''email'' then n\<lparr>byChannel := b\<lparr>email_delivered := count item\<rparr>\<rparr>
            else if channel = Some ''sms'' then n\<lparr>byChannel := b\<lparr>sms_delivered := count item\<rparr>\<rparr>
            else if channel = Some ''push'' then n\<lparr>byChannel := b\<lparr>push_delivered := count item\<rparr>\<rparr>
            else n)
         else n)"

text \<open>\<open>DataAggregator._processUserMetrics\<close>.\<close>

definition processUserMetrics ::
  "string group_doc list \<Rightarrow> string option group_doc list \<Rightarrow> login_group list \<Rightarrow>
   engagement_doc list \<Rightarrow> (string \<times> string option) group_doc list \<Rightarrow> user_metrics" where
  "processUserMetrics userCounts roleCounts loginActivity userEngagement notificationMetrics =
     (let counts0 = fold userCountStep userCounts \<lparr>u_total = 0, active = 0, u_new = 0\<rparr>;
          counts1 = counts0\<lparr>u_total := u_new counts0 * 10\<rparr>;
          notifications0 = fold notificationStep notificationMetrics
            \<lparr>sent = 0, read = 0, readRate = Num 0,
             byChannel = \<lparr>email_sent = 0, email_delivered = 0, email_opened = 0, sms_sent = 0,
                          sms_delivered = 0, push_sent = 0, push_delivered = 0, push_opened = 0,
                          inApp_sent = 0, inApp_read = 0\<rparr>\<rparr>;
          notifications1 =
            (if 0 < sent notifications0
             then notifications0\<lparr>readRate :=
                    js_times (js_div (of_nat (read notifications0)) (of_nat (sent notifications0))) 100\<rparr>
             else notifications0)
      in \<lparr>um_counts = counts1,
          byRole = fold roleStep roleCounts \<lparr>admin = 0, manager = 0, agent = 0, customer = 0\<rparr>,
          activity = processActivity loginActivity,
          engagement = fold engagementStep userEngagement
            \<lparr>averageFeedbackSubmissions = Num 0, averageComments = Num 0,
             averageResponses = Num 0, averageResolutionTime = Num 0\<rparr>,
          performance = \<lparr>averageFeedbackHandled = Num 0, averageResolutionRate = Num 0,
                         averageSatisfactionScore = Num 0, averageResponseTime = Num 0\<rparr>,
          notifications = notifications1\<rparr>)"

section \<open>The metrics store and the two aggregations\<close>

text \<open>
  A stored metrics document: the key (\<open>period\<close>, \<open>date\<close>, \<open>companyId\<close>), the metric fields,
  \<open>calculatedAt\<close>, and the \<open>createdAt\<close>/\<open>updatedAt\<close> pair that the schema option
  \<open>timestamps: true\<close> maintains.
\<close>

record 'm metrics_doc =
  doc_period :: string
  doc_date :: int
  doc_companyId :: "string option"
  doc_metrics :: 'm
  calculatedAt :: int
  createdAt :: int
  updatedAt :: int

record store =
  FeedbackMetrics :: "feedback_metrics metrics_doc list"
  UserMetrics :: "user_metrics metrics_doc list"

text \<open>The clock as one aggregation call reads it: in \<open>_calculatePeriodDates\<close> (the end of
  \<open>all_time\<close>), for \<open>calculatedAt\<close>, and for the schema's timestamps.\<close>

record clock =
  periodNow :: int
  calculatedNow :: int
  timestampsNow :: int

text \<open>\<open>Model.findOneAndUpdate(query, update, { upsert: true, new: true })\<close> on a
  collection: the first document that matches is updated, and when none matches a new one
  is inserted. The result is the document after the update and the collection.\<close>

fun findOneAndUpdate :: "('d \<Rightarrow> bool) \<Rightarrow> ('d \<Rightarrow> 'd) \<Rightarrow> 'd \<Rightarrow> 'd list \<Rightarrow> 'd \<times> 'd list" where
  "findOneAndUpdate query update inserted [] = (inserted, [inserted])"
| "findOneAndUpdate query update inserted (d # ds) =
     (if query d then (update d, update d # ds)
      else (case findOneAndUpdate query update inserted ds of (r, ds') \<Rightarrow> (r, d # ds')))"

text \<open>The query \<open>{ period, date: startDate, companyId: companyId || null }\<close>, the update
  \<open>{ $set: { ...metrics, calculatedAt: new Date() } }\<close>, and the document an upsert inserts.\<close>

definition docKey :: "'m metrics_doc \<Rightarrow> string \<times> int \<times> string option" where
  "docKey d = (doc_period d, doc_date d, doc_companyId d)"

definition upsertMetrics ::
  "clock \<Rightarrow> string \<Rightarrow> int \<Rightarrow> string option \<Rightarrow> 'm \<Rightarrow> 'm metrics_doc list \<Rightarrow>
   'm metrics_doc \<times> 'm metrics_doc list" where
  "upsertMetrics clk period start companyId metrics docs =
     findOneAndUpdate
       (\<lambda>d. docKey d = (period, start, companyId))
       (\<lambda>d. d\<lparr>doc_metrics := metrics, calculatedAt := calculatedNow clk,
               updatedAt := timestampsNow clk\<rparr>)
       \<lparr>doc_period = period, doc_date = start, doc_companyId = companyId,
        doc_metrics = metrics, calculatedAt = calculatedNow clk,
        createdAt = timestampsNow clk, updatedAt = timestampsNow clk\<rparr>
       docs"

text \<open>The eight pipelines of \<open>aggregateFeedbackMetrics\<close> followed by
  \<open>_processFeedbackMetrics\<close>.\<close>

definition computeFeedbackMetrics :: "period_dates \<Rightarrow> string option \<Rightarrow> event list \<Rightarrow> feedback_metrics" where
  "computeFeedbackMetrics w companyId events =
     (let matched = filter (matchCriteria ''feedback'' w companyId) events;
          created = ofType [''feedback.created''] matched
      in processFeedbackMetrics
           (groupCount eventType
              (ofType [''feedback.created'', ''feedback.updated'', ''feedback.resolved'',
                       ''feedback.closed''] matched))
           (groupCount (\<lambda>e. priority (ev_eventData e)) created)
           (groupCount (\<lambda>e. categoryId (ev_eventData e)) created)
           (groupTimes (timeSamples (ofType [''feedback.responded''] matched)))
           (groupTimes (timeSamples (ofType [''feedback.resolved''] matched)))
           (groupSatisfaction (ofType [''feedback.satisfaction''] matched))
           (groupCount (\<lambda>e. escalationLevel (ev_eventData e)) (ofType [''feedback.escalated''] matched))
           (groupCount (\<lambda>e. commentType (ev_eventData e)) (ofType [''feedback.commented''] matched)))"

text \<open>The five pipelines of \<open>aggregateUserMetrics\<close> followed by \<open>_processUserMetrics\<close>. The
  notification pipeline replaces the source service of the criteria by
  \<open>notification\<close>.\<close>

definition computeUserMetrics :: "period_dates \<Rightarrow> string option \<Rightarrow> event list \<Rightarrow> user_metrics" where
  "computeUserMetrics w companyId events =
     (let matched = filter (matchCriteria ''user'' w companyId) events
      in processUserMetrics
           (groupCount eventType (ofType [''user.created'', ''user.login'', ''user.active''] matched))
           (groupCount (\<lambda>e. role (ev_eventData e)) (ofType [''user.created''] matched))
           (groupLogins (ofType [''user.login''] matched))
           (groupEngagement
              (ofType [''feedback.created'', ''feedback.commented'', ''feedback.responded'',
                       ''feedback.resolved''] matched))
           (groupCount (\<lambda>e. (eventType e, channel (ev_eventData e)))
              (ofType [''notification.sent'', ''notification.read'', ''notification.delivered'']
                 (filter (matchCriteria ''notification'' w companyId) events))))"

text \<open>
  \<open>DataAggregator.aggregateFeedbackMetrics\<close> and \<open>DataAggregator.aggregateUserMetrics\<close>.
  \<open>eventStore\<close> is the database as this call meets it: \<open>Inr events\<close> holds the
  \<open>AnalyticsEvent\<close> collection, \<open>Inl e\<close> stands for a query or the final write throwing
  \<open>e\<close>. The write is the last action of the call, so a call that throws leaves the
  metrics store as it was; the \<open>catch\<close> block logs and rethrows.
\<close>

definition aggregateFeedbackMetrics ::
  "zone \<Rightarrow> clock \<Rightarrow> error + event list \<Rightarrow> string \<Rightarrow> int \<Rightarrow> string option \<Rightarrow> store \<Rightarrow>
   error + feedback_metrics metrics_doc \<times> store" where
  "aggregateFeedbackMetrics z clk eventStore period date companyId st =
     (case calculatePeriodDates z (periodNow clk) period date of
        Inl e \<Rightarrow> Inl e
      | Inr w \<Rightarrow>
          (case eventStore of
             Inl e \<Rightarrow> Inl e
           | Inr events \<Rightarrow>
               (case upsertMetrics clk period (startDate w) companyId
                       (computeFeedbackMetrics w companyId events) (FeedbackMetrics st) of
                  (doc, docs) \<Rightarrow> Inr (doc, st\<lparr>FeedbackMetrics := docs\<rparr>))))"

definition aggregateUserMetrics ::
  "zone \<Rightarrow> clock \<Rightarrow> error + event list \<Rightarrow> string \<Rightarrow> int \<Rightarrow> string option \<Rightarrow> store \<Rightarrow>
   error + user_metrics metrics_doc \<times> store" where
  "aggregateUserMetrics z clk eventStore period date companyId st =
     (case calculatePeriodDates z (periodNow clk) period date of
        Inl e \<Rightarrow> Inl e
      | Inr w \<Rightarrow>
          (case eventStore of
             Inl e \<Rightarrow> Inl e
           | Inr events \<Rightarrow>
               (case upsertMetrics clk period (startDate w) companyId
                       (computeUserMetrics w companyId events) (UserMetrics st) of
                  (doc, docs) \<Rightarrow> Inr (doc, st\<lparr>UserMetrics := docs\<rparr>))))"

section \<open>The scheduled run\<close>

datatype family = Feedback | User

text \<open>
  What a run meets outside the code: the zone, the instant \<open>new Date()\<close> gives at the start
  of the run, the result of the \<open>companies\<close> query, and, for each aggregation call of the
  run (metric family and company scope), the clock and the database as that call meets
  them.
\<close>

record env =
  env_zone :: zone
  env_date :: int
  companies :: "error + string list"
  env_clock :: "family \<Rightarrow> string option \<Rightarrow> clock"
  env_eventStore :: "family \<Rightarrow> string option \<Rightarrow> error + event list"

definition aggregateCall :: "env \<Rightarrow> string \<Rightarrow> family \<times> string option \<Rightarrow> store \<Rightarrow> error + store" where
  "aggregateCall env periodType call st =
     (case call of
        (Feedback, c) \<Rightarrow>
          map_sum id snd
            (aggregateFeedbackMetrics (env_zone env) (env_clock env Feedback c)
               (env_eventStore env Feedback c) periodType (env_date env) c st)
      | (User, c) \<Rightarrow>
          map_sum id snd
            (aggregateUserMetrics (env_zone env) (env_clock env User c)
               (env_eventStore env User c) periodType (env_date env) c st))"

text \<open>The outcome of a run: the metrics store it leaves, the aggregation calls that
  completed, in order, and the error its \<open>catch\<close> block logged, if any. The run itself
  never throws.\<close>

record run_result =
  rr_store :: store
  rr_completed :: "(family \<times> string option) list"
  rr_logged :: "error option"

text \<open>The awaited calls inside the \<open>try\<close> block, one after the other: the first one that
  throws transfers control to the \<open>catch\<close> block.\<close>

fun runCalls ::
  "env \<Rightarrow> string \<Rightarrow> (family \<times> string option) list \<Rightarrow> store \<Rightarrow> (family \<times> string option) list \<Rightarrow>
   run_result" where
  "runCalls env periodType [] st completed =
     \<lparr>rr_store = st, rr_completed = completed, rr_logged = None\<rparr>"
| "runCalls env periodType (call # rest) st completed =
     (case aggregateCall env periodType call st of
        Inl e \<Rightarrow> \<lparr>rr_store = st, rr_completed = completed, rr_logged = Some e\<rparr>
      | Inr st' \<Rightarrow> runCalls env periodType rest st' (completed @ [call]))"

definition scopeCalls :: "string option \<Rightarrow> (family \<times> string option) list" where
  "scopeCalls c = [(Feedback, c), (User, c)]"

text \<open>\<open>DataAggregator.runScheduledAggregation\<close>: the platform-wide scope, then every
  company in the order of the query result.\<close>

definition runScheduledAggregation :: "env \<Rightarrow> string \<Rightarrow> store \<Rightarrow> run_result" where
  "runScheduledAggregation env periodType st =
     (case companies env of
        Inl e \<Rightarrow> \<lparr>rr_store = st, rr_completed = [], rr_logged = Some e\<rparr>
      | Inr cs \<Rightarrow>
          runCalls env periodType (scopeCalls None @ concat (map (\<lambda>c. scopeCalls (Some c)) cs))
            st [])"

section \<open>The manual trigger endpoint\<close>

record request =
  roles :: "string list"
  body_period :: "string option"
  body_companyId :: "string option"
  body_startDate :: "string option"
  body_endDate :: "string option"

record response =
  status :: nat
  success :: bool
  res_error :: "string option"
  message :: string

text \<open>A call of \<open>DataAggregator.runManualAggregation(period, { companyId, startDate,
  endDate })\<close> that was started.\<close>

record manual_call =
  mc_period :: string
  mc_companyId :: "string option"
  mc_startDate :: "int option"
  mc_endDate :: "int option"

text \<open>The static methods that \<open>class DataAggregator\<close> defines. Calling a property that is
  not among them throws a \<open>TypeError\<close>.\<close>

definition DataAggregator_methods :: "string list" where
  "DataAggregator_methods =
     [''aggregateFeedbackMetrics'', ''aggregateUserMetrics'', ''runScheduledAggregation'',
      ''_calculatePeriodDates'', ''_processFeedbackMetrics'', ''_processUserMetrics'']"

definition validPeriods :: "string list" where
  "validPeriods = [''daily'', ''weekly'', ''monthly'', ''quarterly'', ''yearly'', ''all_time'']"

text \<open>\<open>value ? new Date(value) : null\<close>; \<open>parseDate\<close> is the \<open>Date\<close> parser, \<open>None\<close> for an
  invalid date. The result is \<open>Inl ()\<close> when the field is given and does not parse.\<close>

definition parseField :: "(string \<Rightarrow> int option) \<Rightarrow> string option \<Rightarrow> unit + int option" where
  "parseField parseDate field =
     (case field of
        None \<Rightarrow> Inr None
      | Some v \<Rightarrow> if v = [] then Inr None
                  else (case parseDate v of None \<Rightarrow> Inl () | Some t \<Rightarrow> Inr (Some t)))"

text \<open>\<open>metricsController.triggerAggregation\<close>: the response sent, and the manual
  aggregation calls started. The handler runs for the callers that the route has
  admitted, those with the \<open>admin\<close> or the \<open>analyst\<close> role. Its admin check comes first,
  then the period (an absent or empty period is not in the list either), then the two
  dates, then the call; the \<open>catch\<close> block of the handler turns an exception into a 500
  response.\<close>

definition invalidPeriodResponse :: response where
  "invalidPeriodResponse =
     \<lparr>status = 400, success = False, res_error = Some ''Validation error'',
      message = ''Invalid period. Must be one of: daily, weekly, monthly, quarterly, yearly, all_time''\<rparr>"

definition startAggregation ::
  "(string \<Rightarrow> int option) \<Rightarrow> request \<Rightarrow> string \<Rightarrow> response \<times> manual_call list" where
  "startAggregation parseDate req period =
     (case parseField parseDate (body_startDate req) of
        Inl _ \<Rightarrow>
          (\<lparr>status = 400, success = False, res_error = Some ''Validation error'',
            message = ''Invalid startDate format''\<rparr>, [])
      | Inr parsedStartDate \<Rightarrow>
          (case parseField parseDate (body_endDate req) of
             Inl _ \<Rightarrow>
               (\<lparr>status = 400, success = False, res_error = Some ''Validation error'',
                 message = ''Invalid endDate format''\<rparr>, [])
           | Inr parsedEndDate \<Rightarrow>
               if ''runManualAggregation'' \<in> set DataAggregator_methods then
                 (\<lparr>status = 202, success = True, res_error = None,
                   message = period @ '' aggregation started successfully''\<rparr>,
                  [\<lparr>mc_period = period, mc_companyId = body_companyId req,
                    mc_startDate = parsedStartDate, mc_endDate = parsedEndDate\<rparr>])
               else
                 (\<lparr>status = 500, success = False, res_error = Some ''Server error'',
                   message = ''DataAggregator.runManualAggregation is not a function''\<rparr>,
                  [])))"

definition triggerAggregation ::
  "(string \<Rightarrow> int option) \<Rightarrow> request \<Rightarrow> response \<times> manual_call list" where
  "triggerAggregation parseDate req =
     (if ''admin'' \<in> set (roles req) then
        (case body_period req of
           None \<Rightarrow> (invalidPeriodResponse, [])
         | Some period \<Rightarrow>
             if period \<in> set validPeriods then startAggregation parseDate req period
             else (invalidPeriodResponse, []))
      else
        (\<lparr>status = 403, success = False, res_error = Some ''Access denied'',
          message = ''Only administrators can trigger manual aggregation''\<rparr>, []))"

section \<open>The scheduler\<close>

text \<open>
  The \<open>Scheduler\<close> object: the \<open>jobs\<close> map from a job name to its cron task (here the
  schedule expression of the task), the executions of job callbacks that have started and
  not yet finished, by job name, and the lines the callbacks logged.
\<close>

record scheduler =
  jobs :: "string \<rightharpoonup> string"
  running :: "string list"
  sched_log :: "string list"

definition stopJob :: "string \<Rightarrow> scheduler \<Rightarrow> bool \<times> scheduler" where
  "stopJob name s =
     (if name \<in> dom (jobs s) then (True, s\<lparr>jobs := (jobs s)(name := None)\<rparr>)
      else (False, s))"

text \<open>\<open>Scheduler.scheduleJob\<close>; \<open>validate\<close> is \<open>cron.validate\<close>.\<close>

definition scheduleJob :: "(string \<Rightarrow> bool) \<Rightarrow> string \<Rightarrow> string \<Rightarrow> scheduler \<Rightarrow> bool \<times> scheduler" where
  "scheduleJob validate name schedule s =
     (if \<not> validate schedule then (False, s)
      else
        (let s1 = (if name \<in> dom (jobs s) then snd (stopJob name s) else s)
         in (True, s1\<lparr>jobs := (jobs s1)(name \<mapsto> schedule)\<rparr>)))"

text \<open>The cron task of a job fires: the callback given to \<open>cron.schedule\<close> logs and starts
  \<open>task()\<close>. A task that was stopped does not fire.\<close>

definition fire :: "string \<Rightarrow> scheduler \<Rightarrow> scheduler" where
  "fire name s =
     (if name \<in> dom (jobs s)
      then s\<lparr>running := running s @ [name],
              sched_log := sched_log s @ [''Executing scheduled job: '' @ name]\<rparr>
      else s)"

text \<open>The awaited \<open>task()\<close> of one execution returns or throws: the callback logs the
  completion or the error and ends.\<close>

definition finish :: "string \<Rightarrow> bool \<Rightarrow> scheduler \<Rightarrow> scheduler" where
  "finish name ok s =
     (if name \<in> set (running s)
      then s\<lparr>running := remove1 name (running s),
              sched_log := sched_log s @
                [(if ok then ''Job '' @ name @ '' completed'' else ''Error executing job '' @ name)]\<rparr>
      else s)"

section \<open>The specification's reducers\<close>

text \<open>The rate of the specification: \<open>denominator == 0 ? 0 : numerator/denominator * 100\<close>,
  and the plain quotient guarded the same way.\<close>

definition spec_rate :: "nat \<Rightarrow> nat \<Rightarrow> jsnum" where
  "spec_rate numerator denominator =
     (if denominator = 0 then Num 0 else Num (of_nat numerator / of_nat denominator * 100))"

definition spec_quotient :: "nat \<Rightarrow> nat \<Rightarrow> jsnum" where
  "spec_quotient numerator denominator =
     (if denominator = 0 then Num 0 else Num (of_nat numerator / of_nat denominator))"

text \<open>The numerators and denominators of the three quotients, counted on what the
  assemblers are given: the count of the \<open>feedback.created\<close> item of the status counts (of
  the last one, should there be several; 0 when there is none), the sum of the counts of a
  list of groups, and the sum of the counts of the notification groups of one event
  type.\<close>

definition createdCount :: "string group_doc list \<Rightarrow> nat" where
  "createdCount statusCounts =
     (case filter (\<lambda>item. gid item = ''feedback.created'') statusCounts of
        [] \<Rightarrow> 0
      | item # items \<Rightarrow> count (last (item # items)))"

definition totalCount :: "'k group_doc list \<Rightarrow> nat" where
  "totalCount items = sum_list (map count items)"

definition typeCount :: "string \<Rightarrow> (string \<times> string option) group_doc list \<Rightarrow> nat" where
  "typeCount ty items = sum_list (map count (filter (\<lambda>item. fst (gid item) = ty) items))"

text \<open>The same numbers counted on the events: the number of events of a source service and
  an event type that a window and a company scope select.\<close>

definition eventCount :: "string \<Rightarrow> string \<Rightarrow> period_dates \<Rightarrow> string option \<Rightarrow> event list \<Rightarrow> nat" where
  "eventCount service ty w companyId events =
     length (filter (\<lambda>e. matchCriteria service w companyId e \<and> eventType e = ty) events)"





text \<open>The local calendar day, counted from 1970-01-01, on which an instant falls.\<close>

definition localDay :: "zone \<Rightarrow> int \<Rightarrow> int" where
  "localDay z t = localTime z t div MS_PER_DAY"



text \<open>A result that is a finite number: not \<open>NaN\<close>, not infinite, not \<open>undefined\<close>.\<close>

definition finiteNumber :: "jsnum \<Rightarrow> bool" where
  "finiteNumber x = (case x of Num r \<Rightarrow> True | _ \<Rightarrow> False)"

text \<open>The median and the 95th percentile of the specification, on a list of duration
  samples: \<open>0\<close> for no samples; otherwise, on the samples sorted ascending, the average of
  the two middle values or the single middle value, and the element at index
  \<open>ceil(n * 0.95) - 1\<close>.\<close>

definition spec_median :: "int list \<Rightarrow> rat" where
  "spec_median samples =
     (let s = sort samples; n = length s
      in if n = 0 then 0
         else if even n then (of_int (s ! (n div 2 - 1)) + of_int (s ! (n div 2))) / 2
         else of_int (s ! (n div 2)))"

definition spec_p95 :: "int list \<Rightarrow> rat" where
  "spec_p95 samples =
     (let s = sort samples; n = length s
      in if n = 0 then 0 else of_int (s ! (nat \<lceil>rat_of_nat n * (95 / 100)\<rceil> - 1)))"




text \<open>The error that an aggregation call of a run throws, if it throws: the call fails in
  the period calculator or at the database, whatever the metrics store holds.\<close>

definition callOutcome :: "env \<Rightarrow> string \<Rightarrow> family \<times> string option \<Rightarrow> error option" where
  "callOutcome env periodType call =
     (case calculatePeriodDates (env_zone env)
             (periodNow (env_clock env (fst call) (snd call))) periodType (env_date env) of
        Inl e \<Rightarrow> Some e
      | Inr w \<Rightarrow>
          (case env_eventStore env (fst call) (snd call) of
             Inl e \<Rightarrow> Some e
           | Inr events \<Rightarrow> None))"

section \<open>Sample inputs\<close>

text \<open>A process running in UTC, and one running in New York in the year 2024: Eastern
  Standard Time, with daylight saving time from 2024-03-10T07:00Z to 2024-11-03T06:00Z.\<close>

definition utc :: zone where
  "utc = \<lparr>baseOffset = 0, changes = []\<rparr>"


definition blankData :: event_data where
  "blankData =
     \<lparr>priority = None, categoryId = None, ed_createdAt = 0, score = 0, escalationLevel = None,
      commentType = None, role = None, sessionDuration = 0, channel = None, ed_status = None\<rparr>"

definition feedbackEvent :: "string \<Rightarrow> int \<Rightarrow> event_data \<Rightarrow> event" where
  "feedbackEvent ty t d =
     \<lparr>sourceService = ''feedback'', eventType = ty, ev_eventData = d, userId = None,
      ev_companyId = None, timestamp = t\<rparr>"

definition emptyStore :: store where
  "emptyStore = \<lparr>FeedbackMetrics = [], UserMetrics = []\<rparr>"

definition clockAt :: "int \<Rightarrow> clock" where
  "clockAt t = \<lparr>periodNow = t, calculatedNow = t, timestampsNow = t\<rparr>"

text \<open>One feedback created and escalated twice, to level 1 and to level 2, on
  1970-01-01.\<close>

definition escalatedTwice :: "event list" where
  "escalatedTwice =
     [feedbackEvent ''feedback.created'' 1000 blankData,
      feedbackEvent ''feedback.escalated'' 2000 (blankData\<lparr>escalationLevel := Some 1\<rparr>),
      feedbackEvent ''feedback.escalated'' 3000 (blankData\<lparr>escalationLevel := Some 2\<rparr>)]"

text \<open>One feedback created and then moved to \<open>in_progress\<close>, on 1970-01-01.\<close>

definition takenInProgress :: "event list" where
  "takenInProgress =
     [feedbackEvent ''feedback.created'' 1000 blankData,
      feedbackEvent ''feedback.updated'' 2000 (blankData\<lparr>ed_status := Some ''in_progress''\<rparr>)]"

text \<open>A freshly constructed scheduler.\<close>

definition newScheduler :: scheduler where
  "newScheduler = \<lparr>jobs = Map.empty, running = [], sched_log = []\<rparr>"

text \<open>A run over the companies \<open>c1\<close> and \<open>c2\<close> during which the database is unavailable
  for the calls of \<open>c1\<close> and holds no events otherwise.\<close>

definition oneCompanyDown :: env where
  "oneCompanyDown =
     \<lparr>env_zone = utc, env_date = 0, companies = Inr [''c1'', ''c2''],
      env_clock = (\<lambda>f c. clockAt 5000),
      env_eventStore = (\<lambda>f c. if c = Some ''c1'' then Inl StoreUnavailable else Inr [])\<rparr>"

section \<open>Collections written by aggregation runs\<close>

text \<open>An aggregation call together with what it meets: the zone, the clock, the database as
  the call finds it, and the arguments of the call.\<close>

record call_args =
  ca_zone :: zone
  ca_clock :: clock
  ca_eventStore :: "error + event list"
  ca_period :: string
  ca_date :: int
  ca_companyId :: "string option"

datatype aggregation = FeedbackAggregation call_args | UserAggregation call_args



section \<open>Period windows\<close>

subsection \<open>Zones\<close>

lemma MS_PER_DAY_pos: "0 < MS_PER_DAY"
  by (simp add: MS_PER_DAY_def)




lemma div_bounds:
  fixes n :: int
  assumes "0 < n"
  shows "n * (x div n) \<le> x" and "x < n * (x div n) + n"
  using assms pos_mod_sign[of n x] pos_mod_bound[of n x] mult_div_mod_eq[of n x]
  by linarith+



lemma day_le_iff:
  fixes D :: int
  assumes D: "0 < D"
  shows "(k * D \<le> L) = (k \<le> L div D)"
proof
  assume le: "k * D \<le> L"
  have "L < D * (L div D) + D" by (rule div_bounds(2)[OF D])
  then have "k * D < (L div D + 1) * D" using le by (simp add: algebra_simps)
  then have "k < L div D + 1" using D by (simp add: mult_less_cancel_right)
  then show "k \<le> L div D" by simp
next
  assume "k \<le> L div D"
  then have "k * D \<le> (L div D) * D" using D by (intro mult_right_mono) simp_all
  also have "\<dots> \<le> L" using div_bounds(1)[OF D, of L] by (simp add: mult.commute)
  finally show "k * D \<le> L" .
qed


lemma utcOfLocal_fixed: "changes z = [] \<Longrightarrow> utcOfLocal z wall = wall - baseOffset z"
  by (simp add: utcOfLocal_def)

lemma localTime_fixed: "changes z = [] \<Longrightarrow> localTime z t = t + baseOffset z"
  by (simp add: localTime_def)


subsection \<open>Months, quarters and years\<close>


















subsection \<open>The windows of the calculator\<close>

lemma leapsBefore_400: "leapsBefore (y + 400) = leapsBefore y + 97"
proof -
  have a: "(y + 400 + 3) div 4 = (y + 3) div 4 + 100"
    using div_mult_self1[of 4 "y + 3" 100] by (simp add: algebra_simps)
  have b: "(y + 400 + 99) div 100 = (y + 99) div 100 + 4"
    using div_mult_self1[of 100 "y + 99" 4] by (simp add: algebra_simps)
  have c: "(y + 400 + 399) div 400 = (y + 399) div 400 + 1"
    using div_mult_self1[of 400 "y + 399" 1] by (simp add: algebra_simps)
  show ?thesis
    unfolding leapsBefore_def a b c by simp
qed

lemma leapYear_400: "leapYear (y + 400) = leapYear y"
proof -
  have "(y + 400) mod 4 = y mod 4"
    using mod_mult_self1[of y 100 4] by simp
  moreover have "(y + 400) mod 100 = y mod 100"
    using mod_mult_self1[of y 4 100] by simp
  moreover have "(y + 400) mod 400 = y mod 400"
    by simp
  ultimately show ?thesis
    unfolding leapYear_def by (simp only:)
qed

lemma daysBeforeYear_400: "daysBeforeYear (y + 400) = daysBeforeYear y + 146097"
  unfolding daysBeforeYear_def leapsBefore_400 by simp

lemma monthStartDay_400: "monthStartDay (y + 400) m = monthStartDay y m + 146097"
proof -
  have "y + 400 + m div 12 = (y + m div 12) + 400" by simp
  then show ?thesis
    unfolding monthStartDay_def by (simp only: daysBeforeYear_400 leapYear_400)
qed

lemma dateValue_400: "dateValue (y + 400) m d = dateValue y m d + MS_PER_400_YEARS"
  unfolding dateValue_def monthStartDay_400 MS_PER_400_YEARS_def
  by (simp add: algebra_simps)

text \<open>Outside the years 0 to 99, and in every year when the offset of the zone never
  changes, \<open>localStartOfDate\<close> is the \<open>Date\<close> constructor.\<close>

lemma startOfDate_plain:
  assumes "changes z = [] \<or> y < 0 \<or> 99 < y"
  shows "startOfDate z y m d = utcOfLocal z (dateValue y m d)"
proof (cases "y < 100 \<and> 0 \<le> y")
  case True
  then have "changes z = []" using assms by auto
  then show ?thesis
    using True unfolding startOfDate_def dateValue_400 by (simp add: utcOfLocal_fixed)
next
  case False
  then show ?thesis by (auto simp: startOfDate_def)
qed

lemma dateValue_day:
  "dateValue (year z t) (month z t) (dateOfMonth z t + k) = (localDay z t + k) * MS_PER_DAY"
  by (simp add: dateValue_def dateOfMonth_def localDay_def)


lemma calculatePeriodDates_daily:
  assumes "changes z = [] \<or> year z ref < 0 \<or> 99 < year z ref"
  shows "calculatePeriodDates z now ''daily'' ref =
           Inr \<lparr>startDate = utcOfLocal z (localDay z ref * MS_PER_DAY),
                endDate = utcOfLocal z ((localDay z ref + 1) * MS_PER_DAY) - 1\<rparr>"
  using dateValue_day[of z ref 0] dateValue_day[of z ref 1]
  by (simp add: calculatePeriodDates_def startOfDate_plain[OF assms])











text \<open>
  The calculator returns the millisecond before the next period as the end of a window,
  and the queries select the events before that end (\<open>$lt\<close>). In a zone whose offset never
  changes, an event in the last millisecond of a local day is therefore selected by no
  daily window, whatever the reference.
\<close>

lemma last_millisecond:
  fixes D :: int
  assumes D: "0 < D" and m: "L mod D = D - 1" and s: "a * D \<le> L" and e: "L < (a + 1) * D - 1"
  shows False
proof -
  have "(a * D \<le> L) = (a \<le> L div D)" "((a + 1) * D \<le> L) = (a + 1 \<le> L div D)"
    by (rule day_le_iff[OF D])+
  moreover have "\<not> (a + 1) * D \<le> L" using e D by linarith
  ultimately have q: "L div D = a" using s by linarith
  have "L = D * (L div D) + L mod D" by simp
  then have "L = D * a + (D - 1)" unfolding q m .
  then show False using e by (simp add: algebra_simps)
qed

lemma last_millisecond_of_day_unmatched:
  assumes "changes z = []" and "localTime z (timestamp e) mod MS_PER_DAY = MS_PER_DAY - 1"
  shows "\<exists>w. calculatePeriodDates z now ''daily'' ref = Inr w \<and>
             \<not> matchCriteria service w companyId e"
proof -
  have c: "calculatePeriodDates z now ''daily'' ref =
           Inr \<lparr>startDate = utcOfLocal z (localDay z ref * MS_PER_DAY),
                endDate = utcOfLocal z ((localDay z ref + 1) * MS_PER_DAY) - 1\<rparr>"
    using assms(1) by (intro calculatePeriodDates_daily) simp
  have n: "\<not> (localDay z ref * MS_PER_DAY - baseOffset z \<le> timestamp e \<and>
              timestamp e < (localDay z ref + 1) * MS_PER_DAY - baseOffset z - 1)"
  proof
    assume a: "localDay z ref * MS_PER_DAY - baseOffset z \<le> timestamp e \<and>
               timestamp e < (localDay z ref + 1) * MS_PER_DAY - baseOffset z - 1"
    have m: "(timestamp e + baseOffset z) mod MS_PER_DAY = MS_PER_DAY - 1"
      using assms by (simp add: localTime_fixed)
    have "localDay z ref * MS_PER_DAY \<le> timestamp e + baseOffset z"
      "timestamp e + baseOffset z < (localDay z ref + 1) * MS_PER_DAY - 1"
      using a by linarith+
    then show False by (rule last_millisecond[OF MS_PER_DAY_pos m])
  qed
  show ?thesis
    unfolding c using assms(1) n by (auto simp: matchCriteria_def utcOfLocal_fixed)
qed

section \<open>Unrecognized periods and the manual trigger\<close>

lemma calculatePeriodDates_invalid:
  "period \<notin> set validPeriods \<Longrightarrow>
     calculatePeriodDates z now period date = Inl (InvalidPeriod period)"
  by (simp add: validPeriods_def calculatePeriodDates_def)

text \<open>
  C7. For every period outside the six recognized kinds, the period calculator throws
  \<open>Invalid period\<close>, so both aggregations throw it before any query or write; and the
  manual trigger endpoint, called by an administrator, answers 400 with a validation
  error and starts no aggregation.
\<close>

theorem invalid_period_rejected:
  assumes "period \<notin> set validPeriods" and "body_period req = Some period"
    and "''admin'' \<in> set (roles req)"
  shows "calculatePeriodDates z now period date = Inl (InvalidPeriod period) \<and>
         aggregateFeedbackMetrics z clk es period date c st = Inl (InvalidPeriod period) \<and>
         aggregateUserMetrics z clk es period date c st = Inl (InvalidPeriod period) \<and>
         triggerAggregation parseDate req = (invalidPeriodResponse, []) \<and>
         status invalidPeriodResponse = 400 \<and>
         res_error invalidPeriodResponse = Some ''Validation error''"
  using assms
  by (simp add: calculatePeriodDates_invalid aggregateFeedbackMetrics_def
      aggregateUserMetrics_def triggerAggregation_def invalidPeriodResponse_def)

theorem invalid_period_rejected_witness:
  "''hourly'' \<notin> set validPeriods \<and>
   calculatePeriodDates utc 0 ''hourly'' 0 = Inl (InvalidPeriod ''hourly'') \<and>
   aggregateFeedbackMetrics utc (clockAt 0) (Inr []) ''hourly'' 0 None emptyStore =
     Inl (InvalidPeriod ''hourly'') \<and>
   triggerAggregation Map.empty
     \<lparr>roles = [''admin''], body_period = Some ''hourly'', body_companyId = None,
      body_startDate = None, body_endDate = None\<rparr> = (invalidPeriodResponse, [])"
proof -
  have h: "''hourly'' \<notin> set validPeriods"
    by (simp add: validPeriods_def)
  show ?thesis
    using h invalid_period_rejected[OF h, of
        "\<lparr>roles = [''admin''], body_period = Some ''hourly'', body_companyId = None,
          body_startDate = None, body_endDate = None\<rparr>" utc 0 0 "clockAt 0" "Inr []" None
        emptyStore Map.empty]
    by simp
qed

text \<open>The handler looks at the role of the caller before it looks at the period: a caller
  whom the route has admitted and who is no administrator gets 403 from the handler,
  whatever the period.\<close>

lemma handler_denies_non_admin:
  "''admin'' \<notin> set (roles req) \<Longrightarrow>
     triggerAggregation parseDate req =
       (\<lparr>status = 403, success = False, res_error = Some ''Access denied'',
         message = ''Only administrators can trigger manual aggregation''\<rparr>, [])"
  by (simp add: triggerAggregation_def)

text \<open>No request at all is answered 202 or starts an aggregation.\<close>

lemma triggerAggregation_never_accepts:
  "snd (triggerAggregation parseDate req) = [] \<and>
   status (fst (triggerAggregation parseDate req)) \<noteq> 202"
  by (simp add: triggerAggregation_def startAggregation_def DataAggregator_methods_def
      invalidPeriodResponse_def split: option.splits sum.splits)

text \<open>
  C8. The handler means to answer 202 after starting \<open>runManualAggregation\<close>, but
  \<open>DataAggregator\<close> defines no such method: the call throws a \<open>TypeError\<close> inside the
  \<open>try\<close> block, and every admin request with a recognized period and well-formed dates is
  answered 500, with no aggregation started.
\<close>

theorem triggerAggregation_valid_request_fails:
  assumes "''admin'' \<in> set (roles req)" and "body_period req = Some period"
    and "period \<in> set validPeriods"
    and "parseField parseDate (body_startDate req) = Inr a"
    and "parseField parseDate (body_endDate req) = Inr b"
  shows "triggerAggregation parseDate req =
           (\<lparr>status = 500, success = False, res_error = Some ''Server error'',
             message = ''DataAggregator.runManualAggregation is not a function''\<rparr>, [])"
  using assms
  by (simp add: triggerAggregation_def startAggregation_def DataAggregator_methods_def)

theorem triggerAggregation_valid_request_fails_witness:
  "triggerAggregation Map.empty
     \<lparr>roles = [''admin''], body_period = Some ''daily'', body_companyId = None,
      body_startDate = None, body_endDate = None\<rparr> =
     (\<lparr>status = 500, success = False, res_error = Some ''Server error'',
       message = ''DataAggregator.runManualAggregation is not a function''\<rparr>, [])"
  using triggerAggregation_valid_request_fails[of
      "\<lparr>roles = [''admin''], body_period = Some ''daily'', body_companyId = None,
        body_startDate = None, body_endDate = None\<rparr>" "''daily''" Map.empty None None]
  by (simp add: validPeriods_def parseField_def)

section \<open>Rates\<close>

lemma percentage_fold_escalationStep:
  "percentage (fold escalationStep items e) = percentage e"
  by (induction items arbitrary: e) (simp_all add: escalationStep_def Let_def split: option.splits)

lemma com_average_fold_commentStep:
  "com_average (fold commentStep items c) = com_average c"
  by (induction items arbitrary: c) (simp_all add: commentStep_def Let_def)

lemma readRate_fold_notificationStep:
  "readRate (fold notificationStep items n) = readRate n"
  by (induction items arbitrary: n) (simp_all add: notificationStep_def Let_def)

text \<open>What the loops of the assemblers accumulate.\<close>

lemma esc_count_fold_escalationStep:
  "esc_count (fold escalationStep items e) = esc_count e + totalCount items"
  by (induction items arbitrary: e)
     (simp_all add: escalationStep_def Let_def totalCount_def split: option.splits)

lemma com_total_fold_commentStep:
  "com_total (fold commentStep items c) = com_total c + totalCount items"
  by (induction items arbitrary: c) (simp_all add: commentStep_def Let_def totalCount_def)

lemma sent_fold_notificationStep:
  "sent (fold notificationStep items n) = sent n + typeCount ''notification.sent'' items"
  by (induction items arbitrary: n) (simp_all add: notificationStep_def Let_def typeCount_def)

lemma read_fold_notificationStep:
  "read (fold notificationStep items n) = read n + typeCount ''notification.read'' items"
  by (induction items arbitrary: n) (simp_all add: notificationStep_def Let_def typeCount_def)

lemma total_statusStep:
  "total (statusStep item c) = (if gid item = ''feedback.created'' then count item else total c)"
  by (simp add: statusStep_def)

lemma total_fold_statusStep:
  "total (fold statusStep items c) =
     (case filter (\<lambda>item. gid item = ''feedback.created'') items of
        [] \<Rightarrow> total c
      | item # items' \<Rightarrow> count (last (item # items')))"
proof (induction items arbitrary: c)
  case Nil
  show ?case by simp
next
  case (Cons x xs)
  show ?case
    unfolding fold_simps Cons.IH total_statusStep
    by (simp split: list.splits)
qed

lemma js_rate_guarded:
  "(if 0 < d then js_times (js_div (of_nat n) (of_nat d)) 100 else Num 0) = spec_rate n d"
  by (simp add: spec_rate_def js_div_def)

lemma js_quotient_guarded:
  "(if 0 < d then js_div (of_nat n) (of_nat d) else Num 0) = spec_quotient n d"
  by (simp add: spec_quotient_def js_div_def)

lemma escalation_percentage:
  "percentage (escalations (processFeedbackMetrics sc pc cc rt rs ss ed cd)) =
     spec_rate (esc_count (escalations (processFeedbackMetrics sc pc cc rt rs ss ed cd)))
               (total (counts (processFeedbackMetrics sc pc cc rt rs ss ed cd)))"
  by (simp add: processFeedbackMetrics_def Let_def percentage_fold_escalationStep
      js_rate_guarded[symmetric])

lemma comments_average:
  "com_average (comments (processFeedbackMetrics sc pc cc rt rs ss ed cd)) =
     spec_quotient (com_total (comments (processFeedbackMetrics sc pc cc rt rs ss ed cd)))
                   (total (counts (processFeedbackMetrics sc pc cc rt rs ss ed cd)))"
  by (simp add: processFeedbackMetrics_def Let_def com_average_fold_commentStep
      js_quotient_guarded[symmetric])

lemma notification_readRate:
  "readRate (notifications (processUserMetrics uc rc la ue nm)) =
     spec_rate (read (notifications (processUserMetrics uc rc la ue nm)))
               (sent (notifications (processUserMetrics uc rc la ue nm)))"
  by (simp add: processUserMetrics_def Let_def readRate_fold_notificationStep
      js_rate_guarded[symmetric])

lemma processFeedbackMetrics_numbers:
  "esc_count (escalations (processFeedbackMetrics sc pc cc rt rs ss ed cd)) = totalCount ed"
  "com_total (comments (processFeedbackMetrics sc pc cc rt rs ss ed cd)) = totalCount cd"
  "total (counts (processFeedbackMetrics sc pc cc rt rs ss ed cd)) = createdCount sc"
  by (simp_all add: processFeedbackMetrics_def Let_def esc_count_fold_escalationStep
      com_total_fold_commentStep total_fold_statusStep createdCount_def split: list.splits)

lemma processUserMetrics_numbers:
  "read (notifications (processUserMetrics uc rc la ue nm)) = typeCount ''notification.read'' nm"
  "sent (notifications (processUserMetrics uc rc la ue nm)) = typeCount ''notification.sent'' nm"
  by (simp_all add: processUserMetrics_def Let_def sent_fold_notificationStep
      read_fold_notificationStep)

lemma assembler_rates:
  "percentage (escalations (processFeedbackMetrics sc pc cc rt rs ss ed cd)) =
     spec_rate (totalCount ed) (createdCount sc)"
  "com_average (comments (processFeedbackMetrics sc pc cc rt rs ss ed cd)) =
     spec_quotient (totalCount cd) (createdCount sc)"
  "readRate (notifications (processUserMetrics uc rc la ue nm)) =
     spec_rate (typeCount ''notification.read'' nm) (typeCount ''notification.sent'' nm)"
  using escalation_percentage[of sc pc cc rt rs ss ed cd] comments_average[of sc pc cc rt rs ss ed cd]
    notification_readRate[of uc rc la ue nm]
  by (simp_all only: processFeedbackMetrics_numbers processUserMetrics_numbers)

text \<open>What the \<open>$group\<close> stages count, in terms of the events.\<close>

lemma sum_indicator_distinct:
  "distinct ks \<Longrightarrow> sum_list (map (\<lambda>k. if a = k then 1 else 0) ks) = (if a \<in> set ks then 1 else (0::nat))"
  by (induction ks) auto

lemma sum_group_sizes:
  assumes "distinct ks"
  shows "sum_list (map (\<lambda>k. length (filter (\<lambda>e. key e = k) es)) ks) =
           length (filter (\<lambda>e. key e \<in> set ks) es)"
proof (induction es)
  case Nil
  show ?case by simp
next
  case (Cons e es)
  have "sum_list (map (\<lambda>k. length (filter (\<lambda>e. key e = k) (e # es))) ks) =
          sum_list (map (\<lambda>k. (if key e = k then 1 else 0) + length (filter (\<lambda>e. key e = k) es)) ks)"
    by (intro arg_cong[where f = sum_list] map_cong) simp_all
  also have "\<dots> = sum_list (map (\<lambda>k. if key e = k then 1 else 0) ks) +
                   sum_list (map (\<lambda>k. length (filter (\<lambda>e. key e = k) es)) ks)"
    by (simp only: sum_list_addf)
  also have "\<dots> = (if key e \<in> set ks then 1 else 0) + length (filter (\<lambda>e. key e \<in> set ks) es)"
    by (simp only: sum_indicator_distinct[OF assms] Cons.IH)
  finally show ?case by simp
qed

lemma count_groupCount:
  "map count (filter (\<lambda>item. P (gid item)) (groupCount key es)) =
     map (\<lambda>k. length (filter (\<lambda>e. key e = k) es)) (filter P (remdups (map key es)))"
  by (simp add: groupCount_def filter_map comp_def)

lemma groupCount_selected:
  "sum_list (map count (filter (\<lambda>item. P (gid item)) (groupCount key es))) =
     length (filter (\<lambda>e. P (key e)) es)"
proof -
  have "sum_list (map count (filter (\<lambda>item. P (gid item)) (groupCount key es))) =
          length (filter (\<lambda>e. key e \<in> set (filter P (remdups (map key es)))) es)"
    unfolding count_groupCount by (rule sum_group_sizes) simp
  also have "filter (\<lambda>e. key e \<in> set (filter P (remdups (map key es)))) es =
               filter (\<lambda>e. P (key e)) es"
    by (rule filter_cong) auto
  finally show ?thesis .
qed

lemma totalCount_groupCount: "totalCount (groupCount key es) = length es"
  using groupCount_selected[of "\<lambda>k. True" key es] by (simp add: totalCount_def)

lemma typeCount_groupCount:
  "typeCount ty (groupCount (\<lambda>e. (eventType e, f e)) es) =
     length (filter (\<lambda>e. eventType e = ty) es)"
  using groupCount_selected[of "\<lambda>k. fst k = ty" "\<lambda>e. (eventType e, f e)" es]
  by (simp add: typeCount_def)

lemma createdCount_sum:
  assumes "distinct (map gid items)"
  shows "createdCount items =
           sum_list (map count (filter (\<lambda>item. gid item = ''feedback.created'') items))"
proof -
  have "length (filter (\<lambda>item. gid item = ''feedback.created'') items) \<le> 1"
    using assms
  proof (induction items)
    case Nil
    show ?case by simp
  next
    case (Cons x xs)
    have d: "distinct (map gid xs)" and nx: "gid x \<notin> gid ` set xs"
      using Cons.prems by simp_all
    show ?case
    proof (cases "gid x = ''feedback.created''")
      case True
      then have "filter (\<lambda>item. gid item = ''feedback.created'') xs = []"
        using nx by (auto simp: filter_empty_conv image_iff)
      then show ?thesis using True by simp
    next
      case False
      then show ?thesis using Cons.IH[OF d] by simp
    qed
  qed
  then show ?thesis
    unfolding createdCount_def
    by (cases "filter (\<lambda>item. gid item = ''feedback.created'') items") auto
qed

lemma createdCount_groupCount:
  "createdCount (groupCount eventType es) =
     length (filter (\<lambda>e. eventType e = ''feedback.created'') es)"
proof -
  have "distinct (map gid (groupCount eventType es))"
    by (simp add: groupCount_def comp_def)
  then show ?thesis
    using groupCount_selected[of "\<lambda>k. k = ''feedback.created''" eventType es]
    by (simp add: createdCount_sum)
qed

lemma eventCount_ofType:
  assumes "ty \<in> set types"
  shows "length (filter (\<lambda>e. eventType e = ty) (ofType types (filter (matchCriteria service w c) events))) =
           eventCount service ty w c events"
proof -
  have "filter (\<lambda>e. eventType e = ty) (ofType types (filter (matchCriteria service w c) events)) =
          filter (\<lambda>e. matchCriteria service w c e \<and> eventType e = ty) events"
    unfolding ofType_def filter_filter using assms by (intro filter_cong) auto
  then show ?thesis
    by (simp only: eventCount_def)
qed

lemma eventCount_ofType_single:
  "length (ofType [ty] (filter (matchCriteria service w c) events)) = eventCount service ty w c events"
proof -
  have "ofType [ty] (filter (matchCriteria service w c) events) =
          filter (\<lambda>e. matchCriteria service w c e \<and> eventType e = ty) events"
    unfolding ofType_def filter_filter by (intro filter_cong) auto
  then show ?thesis
    by (simp only: eventCount_def)
qed

lemma aggregation_rates:
  "percentage (escalations (computeFeedbackMetrics w c events)) =
     spec_rate (eventCount ''feedback'' ''feedback.escalated'' w c events)
               (eventCount ''feedback'' ''feedback.created'' w c events)"
  "com_average (comments (computeFeedbackMetrics w c events)) =
     spec_quotient (eventCount ''feedback'' ''feedback.commented'' w c events)
                   (eventCount ''feedback'' ''feedback.created'' w c events)"
  "readRate (notifications (computeUserMetrics w c events)) =
     spec_rate (eventCount ''notification'' ''notification.read'' w c events)
               (eventCount ''notification'' ''notification.sent'' w c events)"
proof -
  have cr: "createdCount (groupCount eventType
              (ofType [''feedback.created'', ''feedback.updated'', ''feedback.resolved'',
                       ''feedback.closed''] (filter (matchCriteria ''feedback'' w c) events))) =
            eventCount ''feedback'' ''feedback.created'' w c events"
    unfolding createdCount_groupCount by (rule eventCount_ofType) simp
  show "percentage (escalations (computeFeedbackMetrics w c events)) =
     spec_rate (eventCount ''feedback'' ''feedback.escalated'' w c events)
               (eventCount ''feedback'' ''feedback.created'' w c events)"
    unfolding computeFeedbackMetrics_def Let_def assembler_rates(1) cr totalCount_groupCount
      eventCount_ofType_single by (rule refl)
  show "com_average (comments (computeFeedbackMetrics w c events)) =
     spec_quotient (eventCount ''feedback'' ''feedback.commented'' w c events)
                   (eventCount ''feedback'' ''feedback.created'' w c events)"
    unfolding computeFeedbackMetrics_def Let_def assembler_rates(2) cr totalCount_groupCount
      eventCount_ofType_single by (rule refl)
  have rd: "length (filter (\<lambda>e. eventType e = ''notification.read'')
              (ofType [''notification.sent'', ''notification.read'', ''notification.delivered'']
                 (filter (matchCriteria ''notification'' w c) events))) =
            eventCount ''notification'' ''notification.read'' w c events"
    by (rule eventCount_ofType) simp
  have sn: "length (filter (\<lambda>e. eventType e = ''notification.sent'')
              (ofType [''notification.sent'', ''notification.read'', ''notification.delivered'']
                 (filter (matchCriteria ''notification'' w c) events))) =
            eventCount ''notification'' ''notification.sent'' w c events"
    by (rule eventCount_ofType) simp
  show "readRate (notifications (computeUserMetrics w c events)) =
     spec_rate (eventCount ''notification'' ''notification.read'' w c events)
               (eventCount ''notification'' ''notification.sent'' w c events)"
    unfolding computeUserMetrics_def Let_def assembler_rates(3) typeCount_groupCount rd sn
    by (rule refl)
qed

lemma spec_rate_finite: "finiteNumber (spec_rate n d)"
  by (simp add: finiteNumber_def spec_rate_def)

lemma spec_quotient_finite: "finiteNumber (spec_quotient n d)"
  by (simp add: finiteNumber_def spec_quotient_def)

text \<open>
  C3. For every numerator and denominator, each of the three quotients is the
  specification's: 0 when the denominator is 0, and numerator / denominator * 100 (the
  plain quotient for the average) otherwise, a finite number in either case, never \<open>NaN\<close>
  and never the result of a division by zero. The assemblers compute them from the grouped
  counts they are given: the escalation percentage from the sum of the escalation counts
  and the count of created feedback, the average comments per item from the sum of the
  comment counts and the count of created feedback, the read rate from the sums of the
  counts of the read and of the sent notification groups. For an aggregation these are the
  numbers of escalation, comment and creation events, and of read and sent notification
  events, that the window and the company scope select.
\<close>

theorem rates_guard_zero_denominator:
  "percentage (escalations (processFeedbackMetrics sc pc cc rt rs ss ed cd)) =
     spec_rate (totalCount ed) (createdCount sc) \<and>
   com_average (comments (processFeedbackMetrics sc pc cc rt rs ss ed cd)) =
     spec_quotient (totalCount cd) (createdCount sc) \<and>
   readRate (notifications (processUserMetrics uc rc la ue nm)) =
     spec_rate (typeCount ''notification.read'' nm) (typeCount ''notification.sent'' nm) \<and>
   percentage (escalations (processFeedbackMetrics
       [\<lparr>gid = ''feedback.created'', count = d, g_eventData = None\<rparr>] pc cc rt rs ss
       [\<lparr>gid = l, count = n, g_eventData = None\<rparr>] cd)) = spec_rate n d \<and>
   com_average (comments (processFeedbackMetrics
       [\<lparr>gid = ''feedback.created'', count = d, g_eventData = None\<rparr>] pc cc rt rs ss ed
       [\<lparr>gid = t, count = n, g_eventData = None\<rparr>])) = spec_quotient n d \<and>
   readRate (notifications (processUserMetrics uc rc la ue
       [\<lparr>gid = (''notification.sent'', ch), count = d, g_eventData = None\<rparr>,
        \<lparr>gid = (''notification.read'', ch'), count = n, g_eventData = None\<rparr>])) = spec_rate n d \<and>
   percentage (escalations (computeFeedbackMetrics w c events)) =
     spec_rate (eventCount ''feedback'' ''feedback.escalated'' w c events)
               (eventCount ''feedback'' ''feedback.created'' w c events) \<and>
   com_average (comments (computeFeedbackMetrics w c events)) =
     spec_quotient (eventCount ''feedback'' ''feedback.commented'' w c events)
                   (eventCount ''feedback'' ''feedback.created'' w c events) \<and>
   readRate (notifications (computeUserMetrics w c events)) =
     spec_rate (eventCount ''notification'' ''notification.read'' w c events)
               (eventCount ''notification'' ''notification.sent'' w c events) \<and>
   spec_rate n 0 = Num 0 \<and> spec_quotient n 0 = Num 0 \<and>
   spec_rate n (Suc d) = Num (of_nat n / of_nat (Suc d) * 100) \<and>
   spec_quotient n (Suc d) = Num (of_nat n / of_nat (Suc d)) \<and>
   finiteNumber (spec_rate n d) \<and> finiteNumber (spec_quotient n d)"
proof -
  have a: "percentage (escalations (processFeedbackMetrics
       [\<lparr>gid = ''feedback.created'', count = d, g_eventData = None\<rparr>] pc cc rt rs ss
       [\<lparr>gid = l, count = n, g_eventData = None\<rparr>] cd)) = spec_rate n d"
    unfolding assembler_rates by (simp add: totalCount_def createdCount_def)
  have b: "com_average (comments (processFeedbackMetrics
       [\<lparr>gid = ''feedback.created'', count = d, g_eventData = None\<rparr>] pc cc rt rs ss ed
       [\<lparr>gid = t, count = n, g_eventData = None\<rparr>])) = spec_quotient n d"
    unfolding assembler_rates by (simp add: totalCount_def createdCount_def)
  have c: "readRate (notifications (processUserMetrics uc rc la ue
       [\<lparr>gid = (''notification.sent'', ch), count = d, g_eventData = None\<rparr>,
        \<lparr>gid = (''notification.read'', ch'), count = n, g_eventData = None\<rparr>])) = spec_rate n d"
    unfolding assembler_rates by (simp add: typeCount_def)
  have s: "spec_rate n 0 = Num 0" "spec_quotient n 0 = Num 0"
    "spec_rate n (Suc d) = Num (of_nat n / of_nat (Suc d) * 100)"
    "spec_quotient n (Suc d) = Num (of_nat n / of_nat (Suc d))"
    by (simp_all add: spec_rate_def spec_quotient_def)
  show ?thesis
    by (intro conjI a b c s assembler_rates aggregation_rates spec_rate_finite
        spec_quotient_finite)
qed

text \<open>Four notifications sent and three read give a read rate of 75; four feedbacks created
  and one escalated give an escalation percentage of 25, and one escalated with none
  created gives 0.\<close>

theorem rates_guard_zero_denominator_witness:
  "readRate (notifications (processUserMetrics [] [] [] []
       [\<lparr>gid = (''notification.sent'', Some ''email''), count = 4, g_eventData = None\<rparr>,
        \<lparr>gid = (''notification.read'', Some ''inApp''), count = 3, g_eventData = None\<rparr>])) = Num 75 \<and>
   percentage (escalations (processFeedbackMetrics
       [\<lparr>gid = ''feedback.created'', count = 4, g_eventData = None\<rparr>] [] [] [] [] []
       [\<lparr>gid = Some 1, count = 1, g_eventData = None\<rparr>] [])) = Num 25 \<and>
   percentage (escalations (processFeedbackMetrics [] [] [] [] [] []
       [\<lparr>gid = Some 1, count = 1, g_eventData = None\<rparr>] [])) = Num 0"
proof -
  have "typeCount ''notification.read''
          [\<lparr>gid = (''notification.sent'', Some ''email''), count = 4, g_eventData = None\<rparr>,
           \<lparr>gid = (''notification.read'', Some ''inApp''), count = 3, g_eventData = None\<rparr>] = 3"
       "typeCount ''notification.sent''
          [\<lparr>gid = (''notification.sent'', Some ''email''), count = 4, g_eventData = None\<rparr>,
           \<lparr>gid = (''notification.read'', Some ''inApp''), count = 3, g_eventData = None\<rparr>] = 4"
       "totalCount [\<lparr>gid = Some (1::int), count = 1, g_eventData = None\<rparr>] = 1"
       "createdCount [\<lparr>gid = ''feedback.created'', count = 4, g_eventData = None\<rparr>] = 4"
       "createdCount [] = 0"
    by (simp_all add: typeCount_def totalCount_def createdCount_def)
  then show ?thesis
    using rates_guard_zero_denominator[of
        "[\<lparr>gid = ''feedback.created'', count = 4, g_eventData = None\<rparr>]" "[]" "[]" "[]" "[]" "[]"
        "[\<lparr>gid = Some 1, count = 1, g_eventData = None\<rparr>]" "[]" "[]" "[]" "[]" "[]"
        "[\<lparr>gid = (''notification.sent'', Some ''email''), count = 4, g_eventData = None\<rparr>,
          \<lparr>gid = (''notification.read'', Some ''inApp''), count = 3, g_eventData = None\<rparr>]"]
      rates_guard_zero_denominator[of "[]" "[]" "[]" "[]" "[]" "[]"
        "[\<lparr>gid = Some 1, count = 1, g_eventData = None\<rparr>]" "[]" "[]" "[]" "[]" "[]" "[]"]
    by (simp add: spec_rate_def)
qed

section \<open>Median and 95th percentile\<close>

lemma p95Index_bounds:
  assumes "0 < n"
  shows "1 \<le> \<lceil>rat_of_nat n * (95 / 100)\<rceil>" and "\<lceil>rat_of_nat n * (95 / 100)\<rceil> \<le> int n"
proof -
  have "0 < rat_of_nat n * (95 / 100)" using assms by simp
  then have "0 < \<lceil>rat_of_nat n * (95 / 100)\<rceil>" by (simp only: zero_less_ceiling)
  then show "1 \<le> \<lceil>rat_of_nat n * (95 / 100)\<rceil>" by simp
  have "rat_of_nat n * (95 / 100) \<le> rat_of_nat n" by simp
  then have "rat_of_nat n * (95 / 100) \<le> of_int (int n)" by simp
  then show "\<lceil>rat_of_nat n * (95 / 100)\<rceil> \<le> int n" by (simp only: ceiling_le_iff)
qed

lemma js_index_in_range:
  "i < length vs \<Longrightarrow> js_index vs (int i) = Num (of_int (vs ! i))"
  by (simp add: js_index_def)

lemma int_pred_nat: "1 \<le> c \<Longrightarrow> c - 1 = int (nat c - 1)"
  by simp

lemma int_half: "int n div 2 = int (n div 2)"
  by (simp add: zdiv_int)

lemma int_half_pred: "2 \<le> n \<Longrightarrow> int n div 2 - 1 = int (n div 2 - 1)"
  by (simp add: zdiv_int of_nat_diff)

lemma median_even:
  assumes "vs \<noteq> []" and "even (length vs)"
  shows "js_half (js_plus (js_index vs (int (length vs) div 2 - 1))
                          (js_index vs (int (length vs) div 2))) =
         Num ((of_int (vs ! (length vs div 2 - 1)) + of_int (vs ! (length vs div 2))) / 2)"
proof -
  have "length vs \<noteq> 0" "length vs \<noteq> 1" using assms by auto
  then have n: "2 \<le> length vs" by linarith
  have lt: "length vs div 2 - 1 < length vs" "length vs div 2 < length vs" using n by simp_all
  have a: "js_index vs (int (length vs) div 2 - 1) = Num (of_int (vs ! (length vs div 2 - 1)))"
    by (simp only: int_half_pred[OF n] js_index_in_range[OF lt(1)])
  have b: "js_index vs (int (length vs) div 2) = Num (of_int (vs ! (length vs div 2)))"
    by (simp only: int_half js_index_in_range[OF lt(2)])
  show ?thesis
    by (simp only: a b js_plus.simps js_half.simps)
qed

lemma median_odd:
  assumes "odd (length vs)"
  shows "js_index vs (int (length vs) div 2) = Num (of_int (vs ! (length vs div 2)))"
proof -
  have n: "0 < length vs" using assms by (cases vs) auto
  then have "length vs div 2 < length vs" by simp
  then show ?thesis unfolding int_half by (simp add: js_index_in_range)
qed

lemma p95_in_range:
  assumes "vs \<noteq> []"
  shows "js_index vs (\<lceil>rat_of_nat (length vs) * (95 / 100)\<rceil> - 1) =
         Num (of_int (vs ! (nat \<lceil>rat_of_nat (length vs) * (95 / 100)\<rceil> - 1)))"
proof -
  let ?c = "\<lceil>rat_of_nat (length vs) * (95 / 100)\<rceil>"
  have n: "0 < length vs" using assms by simp
  have c: "1 \<le> ?c" "?c \<le> int (length vs)" by (rule p95Index_bounds[OF n])+
  have "nat ?c - 1 < length vs" using c n by linarith
  then show ?thesis unfolding int_pred_nat[OF c(1)] by (rule js_index_in_range)
qed

lemma processTimes_Cons:
  "processTimes (g # gs) =
     \<lparr>average = or_zero (g_average g),
      median = (if length (g_values g) mod 2 = 0
                then js_half (js_plus
                       (js_index (sort (g_values g)) (int (length (sort (g_values g))) div 2 - 1))
                       (js_index (sort (g_values g)) (int (length (sort (g_values g))) div 2)))
                else js_index (sort (g_values g)) (int (length (sort (g_values g))) div 2)),
      min_time = or_zero (g_min g),
      max_time = or_zero (g_max g),
      percentile95 = or_zero (js_index (sort (g_values g))
                       (\<lceil>rat_of_nat (length (sort (g_values g))) * (95 / 100)\<rceil> - 1))\<rparr>"
  by (simp add: processTimes_def Let_def del: sort_key_simps)

lemma processTimes_groupTimes:
  "median (processTimes (groupTimes samples)) = Num (spec_median samples) \<and>
   percentile95 (processTimes (groupTimes samples)) = Num (spec_p95 samples)"
proof (cases "samples = []")
  case True
  then show ?thesis
    by (simp add: groupTimes_def processTimes_def zeroTimes_def spec_median_def spec_p95_def)
next
  case False
  then have s: "sort samples \<noteq> []" by (metis length_0_conv length_sort)
  have n: "length (sort samples) \<noteq> 0" using False by simp
  have g: "groupTimes samples =
      [\<lparr>g_average = js_div (of_int (sum_list samples)) (of_nat (length samples)),
        g_min = Num (of_int (Min (set samples))), g_max = Num (of_int (Max (set samples))),
        g_values = samples\<rparr>]"
    using False by (simp add: groupTimes_def)
  have m: "median (processTimes (groupTimes samples)) = Num (spec_median samples)"
  proof (cases "even (length (sort samples))")
    case True
    then have "length samples mod 2 = 0" by (simp add: even_iff_mod_2_eq_zero)
    then show ?thesis
      unfolding g processTimes_Cons spec_median_def Let_def
      using median_even[OF s True] n True by (simp del: sort_key_simps)
  next
    case False
    then have "length samples mod 2 \<noteq> 0" by (simp add: even_iff_mod_2_eq_zero)
    then show ?thesis
      unfolding g processTimes_Cons spec_median_def Let_def
      using median_odd[OF False] n False by (simp del: sort_key_simps)
  qed
  have p: "percentile95 (processTimes (groupTimes samples)) = Num (spec_p95 samples)"
    unfolding g processTimes_Cons spec_p95_def Let_def
    using n p95_in_range[OF s] by (simp del: sort_key_simps)
  from m p show ?thesis ..
qed

lemma spec_median_p95_samples:
  "spec_median [] = 0" "spec_p95 [] = 0"
  "spec_median [10, 20, 30, 40] = 25" "spec_p95 [10, 20, 30, 40] = 40"
  by code_simp+

text \<open>
  The zero defaults come from the guard on the group array. A group with an empty \<open>values\<close>
  array would pass the guard and get \<open>NaN\<close> as its median; the pipeline never emits one.
\<close>

lemma groupTimes_values_nonempty:
  "g \<in> set (groupTimes samples) \<Longrightarrow> g_values g \<noteq> []"
  by (auto simp: groupTimes_def split: if_splits)

lemma processTimes_empty_values:
  "median (processTimes [\<lparr>g_average = Num 0, g_min = Num 0, g_max = Num 0, g_values = []\<rparr>]) = NaN"
  by (simp add: processTimes_def js_index_def)

text \<open>
  C2. For every list of duration samples that the response-time or the resolution-time
  pipeline collects, the assembler's median and 95th percentile are those of the
  specification: 0 and 0 when there are no samples; otherwise, on the samples sorted
  ascending, the average of the two middle values (even length) or the single middle
  value (odd length), and the element at index \<open>ceil(n * 0.95) - 1\<close>. For
  \<open>[10, 20, 30, 40]\<close> the median is 25 and the 95th percentile 40.
\<close>

theorem median_p95_as_specified:
  "median (responseTimes (processFeedbackMetrics sc pc cc (groupTimes samples) rs ss ed cd)) =
     Num (spec_median samples) \<and>
   percentile95 (responseTimes (processFeedbackMetrics sc pc cc (groupTimes samples) rs ss ed cd)) =
     Num (spec_p95 samples) \<and>
   median (resolutionTimes (processFeedbackMetrics sc pc cc rt (groupTimes samples) ss ed cd)) =
     Num (spec_median samples) \<and>
   percentile95 (resolutionTimes (processFeedbackMetrics sc pc cc rt (groupTimes samples) ss ed cd)) =
     Num (spec_p95 samples) \<and>
   spec_median [] = 0 \<and> spec_p95 [] = 0 \<and>
   spec_median [10, 20, 30, 40] = 25 \<and> spec_p95 [10, 20, 30, 40] = 40"
  using processTimes_groupTimes[of samples]
  by (simp add: processFeedbackMetrics_def Let_def spec_median_p95_samples)

theorem median_p95_as_specified_witness:
  "median (responseTimes (processFeedbackMetrics [] [] [] (groupTimes [40, 10, 30, 20]) [] [] [] [])) =
     Num 25 \<and>
   percentile95 (responseTimes (processFeedbackMetrics [] [] [] (groupTimes [40, 10, 30, 20]) [] [] [] [])) =
     Num 40 \<and>
   median (resolutionTimes (processFeedbackMetrics [] [] [] [] (groupTimes []) [] [] [])) = Num 0 \<and>
   percentile95 (resolutionTimes (processFeedbackMetrics [] [] [] [] (groupTimes []) [] [] [])) = Num 0"
proof -
  have "spec_median [40, 10, 30, 20] = 25" "spec_p95 [40, 10, 30, 20] = 40"
    by code_simp+
  then show ?thesis
    using median_p95_as_specified[of "[]" "[]" "[]" "[40, 10, 30, 20]" "[]" "[]" "[]" "[]" "[]"]
      median_p95_as_specified[of "[]" "[]" "[]" "[]" "[]" "[]" "[]" "[]" "[]"]
    by simp
qed

section \<open>Documents produced by an aggregation\<close>

lemma fst_findOneAndUpdate_Cons:
  "fst (findOneAndUpdate q u ins (d # ds)) =
     (if q d then u d else fst (findOneAndUpdate q u ins ds))"
  by (simp split: prod.splits)


lemma findOneAndUpdate_fst:
  assumes "P ins" and "\<And>d. q d \<Longrightarrow> P (u d)"
  shows "P (fst (findOneAndUpdate q u ins ds))"
proof (induction ds)
  case Nil
  show ?case using assms(1) by simp
next
  case (Cons d ds)
  show ?case
    unfolding fst_findOneAndUpdate_Cons using Cons.IH assms(2) by (cases "q d") simp_all
qed

lemma upsertMetrics_metrics:
  "doc_metrics (fst (upsertMetrics clk p s c m docs)) = m"
  unfolding upsertMetrics_def by (rule findOneAndUpdate_fst) simp_all

lemma aggregateFeedbackMetrics_Inr:
  "aggregateFeedbackMetrics z clk es period date c st = Inr (doc, st') \<longleftrightarrow>
     (\<exists>w events. calculatePeriodDates z (periodNow clk) period date = Inr w \<and> es = Inr events \<and>
        doc = fst (upsertMetrics clk period (startDate w) c (computeFeedbackMetrics w c events)
                     (FeedbackMetrics st)) \<and>
        st' = st\<lparr>FeedbackMetrics :=
                 snd (upsertMetrics clk period (startDate w) c (computeFeedbackMetrics w c events)
                        (FeedbackMetrics st))\<rparr>)"
  by (auto simp: aggregateFeedbackMetrics_def split: sum.splits prod.splits)

lemma aggregateUserMetrics_Inr:
  "aggregateUserMetrics z clk es period date c st = Inr (doc, st') \<longleftrightarrow>
     (\<exists>w events. calculatePeriodDates z (periodNow clk) period date = Inr w \<and> es = Inr events \<and>
        doc = fst (upsertMetrics clk period (startDate w) c (computeUserMetrics w c events)
                     (UserMetrics st)) \<and>
        st' = st\<lparr>UserMetrics :=
                 snd (upsertMetrics clk period (startDate w) c (computeUserMetrics w c events)
                        (UserMetrics st))\<rparr>)"
  by (auto simp: aggregateUserMetrics_def split: sum.splits prod.splits)

lemma aggregateFeedbackMetrics_metrics:
  assumes "aggregateFeedbackMetrics z clk es period date c st = Inr (doc, st')"
  shows "\<exists>w events. calculatePeriodDates z (periodNow clk) period date = Inr w \<and>
           es = Inr events \<and> doc_metrics doc = computeFeedbackMetrics w c events"
  using assms unfolding aggregateFeedbackMetrics_Inr
  by (auto simp: upsertMetrics_metrics)

lemma aggregateUserMetrics_metrics:
  assumes "aggregateUserMetrics z clk es period date c st = Inr (doc, st')"
  shows "\<exists>w events. calculatePeriodDates z (periodNow clk) period date = Inr w \<and>
           es = Inr events \<and> doc_metrics doc = computeUserMetrics w c events"
  using assms unfolding aggregateUserMetrics_Inr
  by (auto simp: upsertMetrics_metrics)

lemma daily_window_of_epoch:
  "calculatePeriodDates utc now ''daily'' 0 = Inr \<lparr>startDate = 0, endDate = 86399999\<rparr>"
proof -
  have "changes utc = [] \<or> year utc 0 < 0 \<or> 99 < year utc 0"
    by (simp add: utc_def)
  moreover have "localDay utc 0 = 0" "utcOfLocal utc (0 * MS_PER_DAY) = 0"
    "utcOfLocal utc ((0 + 1) * MS_PER_DAY) - 1 = 86399999"
    by code_simp+
  ultimately show ?thesis
    by (simp only: calculatePeriodDates_daily)
qed

subsection \<open>Status counts\<close>

lemma groupCount_no_eventData:
  "item \<in> set (groupCount key es) \<Longrightarrow> g_eventData item = None"
  by (auto simp: groupCount_def)

lemma statusStep_invariant:
  assumes "g_eventData item = None" and "inProgress c = 0 \<and> new c = total c"
  shows "inProgress (statusStep item c) = 0 \<and> new (statusStep item c) = total (statusStep item c)"
  using assms by (simp add: statusStep_def)

lemma fold_statusStep_invariant:
  assumes "\<forall>item \<in> set items. g_eventData item = None"
    and "inProgress c = 0 \<and> new c = total c"
  shows "inProgress (fold statusStep items c) = 0 \<and>
         new (fold statusStep items c) = total (fold statusStep items c)"
  using assms
proof (induction items arbitrary: c)
  case Nil
  then show ?case by simp
next
  case (Cons item items)
  have "inProgress (statusStep item c) = 0 \<and> new (statusStep item c) = total (statusStep item c)"
    using Cons.prems by (intro statusStep_invariant) simp_all
  with Cons.IH[of "statusStep item c"] Cons.prems(1) show ?case by simp
qed

lemma counts_processFeedbackMetrics:
  "counts (processFeedbackMetrics sc pc cc rt rs ss ed cd) =
     fold statusStep sc \<lparr>total = 0, new = 0, inProgress = 0, resolved = 0, closed = 0\<rparr>"
  by (simp add: processFeedbackMetrics_def Let_def)

lemma computeFeedbackMetrics_counts:
  "inProgress (counts (computeFeedbackMetrics w c events)) = 0 \<and>
   new (counts (computeFeedbackMetrics w c events)) =
     total (counts (computeFeedbackMetrics w c events))"
  unfolding computeFeedbackMetrics_def Let_def counts_processFeedbackMetrics
  by (rule fold_statusStep_invariant) (simp_all add: groupCount_no_eventData)

text \<open>
  C9. In every feedback metrics document that an aggregation produces, whatever the events
  in the store, \<open>counts.inProgress\<close> is 0 and \<open>counts.new\<close> equals \<open>counts.total\<close>: the
  grouped status counts carry no \<open>eventData\<close>, so the in-progress branch never matches.
\<close>

theorem inProgress_never_counted:
  assumes "aggregateFeedbackMetrics z clk es period date c st = Inr (doc, st')"
  shows "inProgress (counts (doc_metrics doc)) = 0 \<and>
         new (counts (doc_metrics doc)) = total (counts (doc_metrics doc))"
  using aggregateFeedbackMetrics_metrics[OF assms] computeFeedbackMetrics_counts by auto

theorem inProgress_never_counted_witness:
  "\<exists>doc st'. aggregateFeedbackMetrics utc (clockAt 5000) (Inr takenInProgress) ''daily'' 0 None
                emptyStore = Inr (doc, st') \<and>
              inProgress (counts (doc_metrics doc)) = 0 \<and>
              new (counts (doc_metrics doc)) = 1 \<and> total (counts (doc_metrics doc)) = 1"
proof -
  obtain doc st' where
    run: "aggregateFeedbackMetrics utc (clockAt 5000) (Inr takenInProgress) ''daily'' 0 None
            emptyStore = Inr (doc, st')"
    unfolding aggregateFeedbackMetrics_Inr by (simp add: daily_window_of_epoch)
  have m: "doc_metrics doc =
             computeFeedbackMetrics \<lparr>startDate = 0, endDate = 86399999\<rparr> None takenInProgress"
    using aggregateFeedbackMetrics_metrics[OF run] by (simp add: daily_window_of_epoch)
  have "total (counts (computeFeedbackMetrics \<lparr>startDate = 0, endDate = 86399999\<rparr> None
          takenInProgress)) = 1"
    by code_simp
  with inProgress_never_counted[OF run] run m show ?thesis by auto
qed

subsection \<open>Percentages\<close>

lemma spec_rate_bounds:
  "\<exists>p. spec_rate n d = Num p \<and> 0 \<le> p \<and> (d = 0 \<longrightarrow> p = 0) \<and> (0 < d \<longrightarrow> (p \<le> 100 \<longleftrightarrow> n \<le> d))"
proof (cases "d = 0")
  case True
  then show ?thesis by (simp add: spec_rate_def)
next
  case False
  then have d: "0 < rat_of_nat d" by simp
  have "rat_of_nat n / rat_of_nat d * 100 \<le> 100 \<longleftrightarrow> rat_of_nat n \<le> rat_of_nat d"
    using d by (simp add: divide_le_eq)
  also have "\<dots> \<longleftrightarrow> n \<le> d" by simp
  finally show ?thesis using False by (simp add: spec_rate_def)
qed

lemma computeFeedbackMetrics_percentage:
  "percentage (escalations (computeFeedbackMetrics w c events)) =
     spec_rate (esc_count (escalations (computeFeedbackMetrics w c events)))
               (total (counts (computeFeedbackMetrics w c events)))"
  unfolding computeFeedbackMetrics_def Let_def by (rule escalation_percentage)

lemma computeUserMetrics_readRate:
  "readRate (notifications (computeUserMetrics w c events)) =
     spec_rate (read (notifications (computeUserMetrics w c events)))
               (sent (notifications (computeUserMetrics w c events)))"
  unfolding computeUserMetrics_def Let_def by (rule notification_readRate)

text \<open>
  C6 (as amended). In every metrics document that an aggregation produces, the escalation
  percentage and the notification read rate are finite numbers that are at least 0 and
  equal 0 when their denominator is 0; with a positive denominator they are at most 100
  exactly when the numerator does not exceed the denominator. Nothing clamps them.
\<close>

theorem percentages_unclamped:
  assumes "aggregateFeedbackMetrics z clk es period date c st = Inr (fdoc, st1)"
    and "aggregateUserMetrics z' clk' es' period' date' c' st2 = Inr (udoc, st3)"
  shows "(\<exists>p. percentage (escalations (doc_metrics fdoc)) = Num p \<and> 0 \<le> p \<and>
              (total (counts (doc_metrics fdoc)) = 0 \<longrightarrow> p = 0) \<and>
              (0 < total (counts (doc_metrics fdoc)) \<longrightarrow>
                 (p \<le> 100 \<longleftrightarrow>
                    esc_count (escalations (doc_metrics fdoc)) \<le> total (counts (doc_metrics fdoc))))) \<and>
         (\<exists>p. readRate (notifications (doc_metrics udoc)) = Num p \<and> 0 \<le> p \<and>
              (sent (notifications (doc_metrics udoc)) = 0 \<longrightarrow> p = 0) \<and>
              (0 < sent (notifications (doc_metrics udoc)) \<longrightarrow>
                 (p \<le> 100 \<longleftrightarrow>
                    read (notifications (doc_metrics udoc)) \<le> sent (notifications (doc_metrics udoc)))))"
proof -
  obtain w events where f: "doc_metrics fdoc = computeFeedbackMetrics w c events"
    using aggregateFeedbackMetrics_metrics[OF assms(1)] by blast
  obtain w' events' where u: "doc_metrics udoc = computeUserMetrics w' c' events'"
    using aggregateUserMetrics_metrics[OF assms(2)] by blast
  show ?thesis
    unfolding f u computeFeedbackMetrics_percentage computeUserMetrics_readRate
    by (intro conjI spec_rate_bounds)
qed

theorem percentages_unclamped_witness:
  "\<exists>fdoc st1 udoc st3.
     aggregateFeedbackMetrics utc (clockAt 5000) (Inr takenInProgress) ''daily'' 0 None emptyStore =
       Inr (fdoc, st1) \<and>
     aggregateUserMetrics utc (clockAt 5000) (Inr []) ''daily'' 0 None emptyStore = Inr (udoc, st3) \<and>
     (\<exists>p. percentage (escalations (doc_metrics fdoc)) = Num p \<and> 0 \<le> p \<and> p \<le> 100) \<and>
     readRate (notifications (doc_metrics udoc)) = Num 0"
proof -
  obtain fdoc st1 where
    f: "aggregateFeedbackMetrics utc (clockAt 5000) (Inr takenInProgress) ''daily'' 0 None
          emptyStore = Inr (fdoc, st1)"
    unfolding aggregateFeedbackMetrics_Inr by (simp add: daily_window_of_epoch)
  obtain udoc st3 where
    u: "aggregateUserMetrics utc (clockAt 5000) (Inr []) ''daily'' 0 None emptyStore =
          Inr (udoc, st3)"
    unfolding aggregateUserMetrics_Inr by (simp add: daily_window_of_epoch)
  have mf: "doc_metrics fdoc =
              computeFeedbackMetrics \<lparr>startDate = 0, endDate = 86399999\<rparr> None takenInProgress"
    using aggregateFeedbackMetrics_metrics[OF f] by (simp add: daily_window_of_epoch)
  have mu: "doc_metrics udoc = computeUserMetrics \<lparr>startDate = 0, endDate = 86399999\<rparr> None []"
    using aggregateUserMetrics_metrics[OF u] by (simp add: daily_window_of_epoch)
  have e: "esc_count (escalations (computeFeedbackMetrics \<lparr>startDate = 0, endDate = 86399999\<rparr>
             None takenInProgress)) = 0"
          "total (counts (computeFeedbackMetrics \<lparr>startDate = 0, endDate = 86399999\<rparr>
             None takenInProgress)) = 1"
          "sent (notifications (computeUserMetrics \<lparr>startDate = 0, endDate = 86399999\<rparr>
             None [])) = 0"
    by code_simp+
  have "(\<exists>p. percentage (escalations (doc_metrics fdoc)) = Num p \<and> 0 \<le> p \<and> p \<le> 100) \<and>
        readRate (notifications (doc_metrics udoc)) = Num 0"
    using percentages_unclamped[OF f u] e unfolding mf mu by auto
  with f u show ?thesis by blast
qed

text \<open>
  C6 as stated fails: one feedback created and escalated twice within the day gives an
  escalation percentage of 200.
\<close>

theorem escalation_percentage_counterexample:
  "\<exists>doc st'. aggregateFeedbackMetrics utc (clockAt 5000) (Inr escalatedTwice) ''daily'' 0 None
                emptyStore = Inr (doc, st') \<and>
              percentage (escalations (doc_metrics doc)) = Num 200 \<and> \<not> (200 :: rat) \<le> 100"
proof -
  obtain doc st' where
    run: "aggregateFeedbackMetrics utc (clockAt 5000) (Inr escalatedTwice) ''daily'' 0 None
            emptyStore = Inr (doc, st')"
    unfolding aggregateFeedbackMetrics_Inr by (simp add: daily_window_of_epoch)
  have m: "doc_metrics doc =
             computeFeedbackMetrics \<lparr>startDate = 0, endDate = 86399999\<rparr> None escalatedTwice"
    using aggregateFeedbackMetrics_metrics[OF run] by (simp add: daily_window_of_epoch)
  have "percentage (escalations (computeFeedbackMetrics \<lparr>startDate = 0, endDate = 86399999\<rparr> None
          escalatedTwice)) = Num 200"
    by code_simp
  with run m show ?thesis by auto
qed

section \<open>Re-running an aggregation\<close>


















section \<open>A failure during a scheduled run\<close>

lemma aggregateCall_fails:
  "callOutcome env p call = Some e \<Longrightarrow> aggregateCall env p call st = Inl e"
  by (cases call; cases "fst call")
     (auto simp: callOutcome_def aggregateCall_def aggregateFeedbackMetrics_def
        aggregateUserMetrics_def split: sum.splits prod.splits)

lemma aggregateCall_succeeds:
  "callOutcome env p call = None \<Longrightarrow> \<exists>st'. aggregateCall env p call st = Inr st'"
  by (cases call; cases "fst call")
     (auto simp: callOutcome_def aggregateCall_def aggregateFeedbackMetrics_def
        aggregateUserMetrics_def split: sum.splits prod.splits)

lemma runCalls_stops:
  assumes "k < length calls"
    and "\<forall>j<k. callOutcome env p (calls ! j) = None"
    and "callOutcome env p (calls ! k) = Some e"
  shows "rr_completed (runCalls env p calls st done) = done @ take k calls \<and>
         rr_logged (runCalls env p calls st done) = Some e"
  using assms
proof (induction calls arbitrary: k st "done")
  case Nil
  then show ?case by simp
next
  case (Cons call calls)
  show ?case
  proof (cases k)
    case 0
    then have "aggregateCall env p call st = Inl e"
      using Cons.prems(3) by (simp add: aggregateCall_fails)
    then show ?thesis using 0 by simp
  next
    case (Suc k')
    have "callOutcome env p call = None"
      using Cons.prems(2) Suc by auto
    then obtain st' where st': "aggregateCall env p call st = Inr st'"
      using aggregateCall_succeeds by blast
    have "rr_completed (runCalls env p calls st' (done @ [call])) = (done @ [call]) @ take k' calls \<and>
          rr_logged (runCalls env p calls st' (done @ [call])) = Some e"
      using Cons.prems Suc by (intro Cons.IH) auto
    then show ?thesis using st' Suc by simp
  qed
qed

lemma runCalls_completes:
  assumes "\<forall>j<length calls. callOutcome env p (calls ! j) = None"
  shows "rr_completed (runCalls env p calls st done) = done @ calls \<and>
         rr_logged (runCalls env p calls st done) = None"
  using assms
proof (induction calls arbitrary: st "done")
  case Nil
  then show ?case by simp
next
  case (Cons call calls)
  have "callOutcome env p call = None"
    using Cons.prems by auto
  then obtain st' where st': "aggregateCall env p call st = Inr st'"
    using aggregateCall_succeeds by blast
  have "rr_completed (runCalls env p calls st' (done @ [call])) = (done @ [call]) @ calls \<and>
        rr_logged (runCalls env p calls st' (done @ [call])) = None"
    using Cons.prems by (intro Cons.IH) auto
  then show ?case using st' by simp
qed

text \<open>
  C5 (as amended). During a scheduled run, the first aggregation call that throws ends the
  run: its error is caught and logged by the run's own handler and does not reach the
  caller, the calls before it have completed, and no call after it is made, so the
  remaining company scopes are not processed.
\<close>

theorem first_failure_ends_run:
  assumes "companies env = Inr cs"
    and "calls = scopeCalls None @ concat (map (\<lambda>c. scopeCalls (Some c)) cs)"
    and "k < length calls"
    and "\<forall>j<k. callOutcome env p (calls ! j) = None"
    and "callOutcome env p (calls ! k) = Some e"
  shows "rr_completed (runScheduledAggregation env p st) = take k calls \<and>
         rr_logged (runScheduledAggregation env p st) = Some e"
  using runCalls_stops[OF assms(3,4,5), of st "[]"] assms(1,2)
  by (simp add: runScheduledAggregation_def)

theorem first_failure_ends_run_witness:
  "companies oneCompanyDown = Inr [''c1'', ''c2''] \<and>
   callOutcome oneCompanyDown ''daily'' (Feedback, None) = None \<and>
   callOutcome oneCompanyDown ''daily'' (User, None) = None \<and>
   callOutcome oneCompanyDown ''daily'' (Feedback, Some ''c1'') = Some StoreUnavailable \<and>
   rr_completed (runScheduledAggregation oneCompanyDown ''daily'' emptyStore) =
     [(Feedback, None), (User, None)] \<and>
   rr_logged (runScheduledAggregation oneCompanyDown ''daily'' emptyStore) = Some StoreUnavailable"
proof -
  have o: "callOutcome oneCompanyDown ''daily'' (Feedback, None) = None"
      "callOutcome oneCompanyDown ''daily'' (User, None) = None"
      "callOutcome oneCompanyDown ''daily'' (Feedback, Some ''c1'') = Some StoreUnavailable"
    by (simp_all add: callOutcome_def oneCompanyDown_def daily_window_of_epoch)
  have c: "companies oneCompanyDown = Inr [''c1'', ''c2'']"
    by (simp add: oneCompanyDown_def)
  show ?thesis
    using o c first_failure_ends_run[of oneCompanyDown "[''c1'', ''c2'']"
        "[(Feedback, None), (User, None), (Feedback, Some ''c1''), (User, Some ''c1''),
          (Feedback, Some ''c2''), (User, Some ''c2'')]" 2 "''daily''" StoreUnavailable emptyStore]
    by (simp add: scopeCalls_def less_2_cases_iff)
qed

text \<open>
  C5 as stated fails: when the database is unavailable for company \<open>c1\<close> only, the run
  stops there, and company \<open>c2\<close>, whose calls would have succeeded, is not processed.
\<close>

theorem later_scope_skipped_counterexample:
  "callOutcome oneCompanyDown ''daily'' (Feedback, Some ''c1'') = Some StoreUnavailable \<and>
   callOutcome oneCompanyDown ''daily'' (Feedback, Some ''c2'') = None \<and>
   callOutcome oneCompanyDown ''daily'' (User, Some ''c2'') = None \<and>
   rr_completed (runScheduledAggregation oneCompanyDown ''daily'' emptyStore) =
     [(Feedback, None), (User, None)] \<and>
   (Feedback, Some ''c2'') \<notin> set (rr_completed (runScheduledAggregation oneCompanyDown ''daily'' emptyStore)) \<and>
   (User, Some ''c2'') \<notin> set (rr_completed (runScheduledAggregation oneCompanyDown ''daily'' emptyStore))"
  by code_simp

section \<open>Overlapping runs of a job\<close>

lemma scheduleJob_registers:
  "validate schedule \<Longrightarrow> jobs (snd (scheduleJob validate name schedule s)) name = Some schedule"
  by (simp add: scheduleJob_def stopJob_def Let_def)

text \<open>
  C10 (as amended). The scheduler keeps no record of running jobs and has no re-entrancy
  guard: every firing of a scheduled job logs the execution and starts the task, whether
  or not earlier executions of the same job are still running, so the number of running
  executions of that job grows by one each time.
\<close>

theorem fire_always_starts:
  assumes "name \<in> dom (jobs s)"
  shows "running (fire name s) = running s @ [name] \<and>
         count_list (running (fire name s)) name = count_list (running s) name + 1 \<and>
         sched_log (fire name s) = sched_log s @ [''Executing scheduled job: '' @ name] \<and>
         jobs (fire name s) = jobs s"
  using assms by (simp add: fire_def)

theorem fire_always_starts_witness:
  "''daily-aggregation'' \<in>
     dom (jobs (snd (scheduleJob (\<lambda>s. True) ''daily-aggregation'' ''0 0 * * *'' newScheduler))) \<and>
   running (fire ''daily-aggregation''
     (snd (scheduleJob (\<lambda>s. True) ''daily-aggregation'' ''0 0 * * *'' newScheduler))) =
     [''daily-aggregation'']"
proof -
  have d: "''daily-aggregation'' \<in>
     dom (jobs (snd (scheduleJob (\<lambda>s. True) ''daily-aggregation'' ''0 0 * * *'' newScheduler)))"
    using scheduleJob_registers[of "\<lambda>s. True" "''0 0 * * *''" "''daily-aggregation''" newScheduler]
    by blast
  have "running (snd (scheduleJob (\<lambda>s. True) ''daily-aggregation'' ''0 0 * * *'' newScheduler)) = []"
    by (simp add: scheduleJob_def newScheduler_def)
  then show ?thesis
    using d fire_always_starts[OF d] by simp
qed

text \<open>
  C10 as stated fails: two firings of \<open>daily-aggregation\<close> with no completion in between
  leave two executions of the job running, both logged as executed and neither as
  skipped.
\<close>

theorem overlapping_runs_counterexample:
  "count_list
     (running (fire ''daily-aggregation'' (fire ''daily-aggregation''
        (snd (scheduleJob (\<lambda>s. True) ''daily-aggregation'' ''0 0 * * *'' newScheduler)))))
     ''daily-aggregation'' = 2 \<and>
   sched_log (fire ''daily-aggregation'' (fire ''daily-aggregation''
        (snd (scheduleJob (\<lambda>s. True) ''daily-aggregation'' ''0 0 * * *'' newScheduler)))) =
     [''Executing scheduled job: daily-aggregation'', ''Executing scheduled job: daily-aggregation''] \<and>
   \<not> (2 :: nat) \<le> 1"
  by (simp add: fire_def scheduleJob_def newScheduler_def)

end
